theory Spec2Isabelle
  imports Main
begin

section \<open>Python string and path primitives\<close>

text \<open>
  The orchestrator of \<^verbatim>\<open>scripts/utils_aws.py\<close> parses its argument and derives every
  object key with a handful of \<^verbatim>\<open>str\<close> methods and \<^verbatim>\<open>os.path\<close> functions. They are
  modelled on \<^typ>\<open>string\<close>; every separator the source passes is a non-empty ASCII
  literal, and for those the functions below compute what CPython computes.
  (Python raises \<^verbatim>\<open>ValueError\<close> for an empty separator of \<^verbatim>\<open>split\<close>; the source never
  passes one.)
\<close>

definition py_startswith :: "string \<Rightarrow> string \<Rightarrow> bool" where
  "py_startswith s p = (take (length p) s = p)"

text \<open>\<^verbatim>\<open>s.find(sub)\<close> and \<^verbatim>\<open>s.rfind(sub)\<close>; Python's \<^verbatim>\<open>-1\<close> is \<^const>\<open>None\<close>.\<close>

fun py_find :: "string \<Rightarrow> string \<Rightarrow> nat option" where
  "py_find [] sub = (if sub = [] then Some 0 else None)"
| "py_find (c # cs) sub =
     (if py_startswith (c # cs) sub then Some 0 else map_option Suc (py_find cs sub))"

fun py_rfind :: "string \<Rightarrow> string \<Rightarrow> nat option" where
  "py_rfind [] sub = (if sub = [] then Some 0 else None)"
| "py_rfind (c # cs) sub =
     (case py_rfind cs sub of
        Some i \<Rightarrow> Some (Suc i)
      | None \<Rightarrow> if py_startswith (c # cs) sub then Some 0 else None)"

text \<open>\<^verbatim>\<open>s.replace(old, new)\<close>: every non-overlapping occurrence, left to right.\<close>

fun py_replace :: "string \<Rightarrow> string \<Rightarrow> string \<Rightarrow> string" where
  "py_replace [] old new = (if old = [] then new else [])"
| "py_replace (c # cs) old new =
     (if old = [] then new @ c # py_replace cs old new
      else if py_startswith (c # cs) old
        then new @ py_replace (drop (length old - 1) cs) old new
        else c # py_replace cs old new)"

text \<open>\<^verbatim>\<open>s.split(sep)\<close>: the pieces between the non-overlapping occurrences of \<open>sep\<close>.\<close>

fun split_from :: "string \<Rightarrow> string \<Rightarrow> string \<Rightarrow> string list" where
  "split_from sep cur [] = [cur]"
| "split_from sep cur (c # cs) =
     (if py_startswith (c # cs) sep
        then cur # split_from sep [] (drop (length sep - 1) cs)
        else split_from sep (cur @ [c]) cs)"

definition py_split :: "string \<Rightarrow> string \<Rightarrow> string list" where
  "py_split s sep = split_from sep [] s"

text \<open>\<^verbatim>\<open>s.split(sep, 1)\<close> and \<^verbatim>\<open>s.rsplit(sep, 1)\<close>: one or two pieces.\<close>

definition py_split_1 :: "string \<Rightarrow> string \<Rightarrow> string list" where
  "py_split_1 s sep =
     (case py_find s sep of
        None \<Rightarrow> [s]
      | Some i \<Rightarrow> [take i s, drop (i + length sep) s])"

definition py_rsplit_1 :: "string \<Rightarrow> string \<Rightarrow> string list" where
  "py_rsplit_1 s sep =
     (case py_rfind s sep of
        None \<Rightarrow> [s]
      | Some i \<Rightarrow> [take i s, drop (i + length sep) s])"

text \<open>\<^verbatim>\<open>os.path.basename\<close> (posixpath): what follows the last slash.\<close>

definition basename :: "string \<Rightarrow> string" where
  "basename p = (case py_rfind p ''/'' of None \<Rightarrow> p | Some i \<Rightarrow> drop (i + 1) p)"

text \<open>
  \<^verbatim>\<open>os.path.splitext\<close> (posixpath): the extension starts at the last dot of the last
  path component, unless only dots precede it there.
\<close>

definition splitext :: "string \<Rightarrow> string \<times> string" where
  "splitext p =
     (case py_rfind p ''.'' of
        None \<Rightarrow> (p, [])
      | Some dotIndex \<Rightarrow>
          (let filenameIndex = (case py_rfind p ''/'' of None \<Rightarrow> 0 | Some sepIndex \<Rightarrow> sepIndex + 1)
           in if filenameIndex \<le> dotIndex
                 \<and> list_ex (\<lambda>c. c \<noteq> CHR ''.'')
                      (take (dotIndex - filenameIndex) (drop filenameIndex p))
              then (take dotIndex p, drop dotIndex p)
              else (p, [])))"

text \<open>\<^verbatim>\<open>str(n)\<close> for an integer: decimal digits, with a sign.\<close>

fun str_nat :: "nat \<Rightarrow> string" where
  "str_nat n =
     (if n < 10 then [''0123456789'' ! n]
      else str_nat (n div 10) @ [''0123456789'' ! (n mod 10)])"

declare str_nat.simps [simp del]

definition str_int :: "int \<Rightarrow> string" where
  "str_int i = (if i < 0 then CHR ''-'' # str_nat (nat (- i)) else str_nat (nat i))"


section \<open>Exceptions, documents, external calls\<close>

text \<open>
  Every exception the pipeline raises or lets through is a value. \<open>ClientError\<close> is
  \<^verbatim>\<open>botocore.exceptions.ClientError\<close> with the error code of the service's response
  (\<^verbatim>\<open>404\<close>, \<^verbatim>\<open>403\<close>, \<^verbatim>\<open>NoSuchKey\<close>, \<^verbatim>\<open>SlowDown\<close>, ...): the one class that
  \<^verbatim>\<open>check_cache\<close> catches. \<open>BotoCoreError\<close> stands for the botocore exceptions that
  are not a \<open>ClientError\<close> (\<^verbatim>\<open>EndpointConnectionError\<close>, \<^verbatim>\<open>ReadTimeoutError\<close>, ...).
\<close>

datatype exn =
    AssertionError string
  | ValueError string
  | RuntimeError string
  | ClientError string
  | BotoCoreError string
  | CalledProcessError "string list"
  | FileNotFoundError string
  | KeyError string
  | IndexError
  | TypeError
  | OtherError string

text \<open>The value \<^verbatim>\<open>json.load\<close> returns.\<close>

datatype json =
    JNull
  | JBool bool
  | JNum int
  | JStr string
  | JArr "json list"
  | JObj "(string \<times> json) list"

text \<open>
  The calls a run makes to the outside, in the order it makes them: the methods of the
  S3 client with bucket, key and local path or body, the encoder subprocess with its
  command line, the methods of the Transcribe client, and \<^verbatim>\<open>time.sleep\<close>. The progress
  messages the source prints are left out.
\<close>

datatype event =
    HeadObject string string
  | GetObject string string
  | PutObject string string string
  | DownloadFile string string string
  | UploadFile string string string
  | SubprocessRun "string list"
  | StartTranscriptionJob string string string string string string
  | GetTranscriptionJob string
  | Sleep nat

text \<open>
  The response of \<^verbatim>\<open>get_transcription_job\<close>: the field
  \<^verbatim>\<open>["TranscriptionJob"]["TranscriptionJobStatus"]\<close> and the text Python prints for the
  whole response.
\<close>

record job_response =
  job_status :: string
  response_repr :: string

text \<open>
  The state a run reads and changes: the objects of the store by (bucket, key), the
  local files by path in creation order, the jobs the transcription service knows with
  their output location, the number of status requests it has answered, and the
  external calls issued so far. Object bodies and file contents are text.
\<close>

record world =
  objects :: "string \<times> string \<Rightarrow> string option"
  files :: "(string \<times> string) list"
  jobs :: "string \<Rightarrow> (string \<times> string) option"
  polls :: nat
  trace :: "event list"

text \<open>
  What the run does not control: the failure, if any, of each external call (a
  rejection by the client's parameter validation, an error response of the service, a
  transport failure, a non-zero exit of the encoder); the encoder's output; the clock
  read for the job name (\<^verbatim>\<open>int(time.time())\<close>); the answer of the service to its
  \<open>n\<close>-th status request, a response or an exception; the document the service writes
  for a job; and \<^verbatim>\<open>json.load\<close>.
\<close>

record env =
  fault :: "event \<Rightarrow> exn option"
  encoder :: "string \<Rightarrow> int \<Rightarrow> string"
  now :: int
  job_reply :: "nat \<Rightarrow> exn + job_response"
  job_output :: "string \<Rightarrow> string"
  json_load :: "string \<Rightarrow> exn + json"

text \<open>Making a call records it; the environment decides whether it fails.\<close>

definition issue :: "env \<Rightarrow> event \<Rightarrow> world \<Rightarrow> exn option \<times> world" where
  "issue env ev w = (fault env ev, w\<lparr>trace := trace w @ [ev]\<rparr>)"


subsection \<open>Local files\<close>

text \<open>
  \<^verbatim>\<open>tempfile.NamedTemporaryFile(suffix=..., delete=False)\<close> creates an empty file under a
  name not in use and leaves it on disk when the handle goes away. The name is modelled
  by a counter.
\<close>

definition NamedTemporaryFile :: "string \<Rightarrow> world \<Rightarrow> string \<times> world" where
  "NamedTemporaryFile suffix w =
     (let name = ''/tmp/tmp'' @ str_nat (length (files w)) @ suffix
      in (name, w\<lparr>files := files w @ [(name, [])]\<rparr>))"

definition write_file :: "string \<Rightarrow> string \<Rightarrow> world \<Rightarrow> world" where
  "write_file path body w =
     w\<lparr>files := map (\<lambda>(p, c). if p = path then (p, body) else (p, c)) (files w)\<rparr>"

definition read_file :: "world \<Rightarrow> string \<Rightarrow> string option" where
  "read_file w path = map_of (rev (files w)) path"


subsection \<open>The S3 client\<close>

text \<open>
  A call the environment lets through meets the store as it is: \<^verbatim>\<open>head_object\<close>,
  \<^verbatim>\<open>get_object\<close> and \<^verbatim>\<open>download_file\<close> of a missing object raise a \<open>ClientError\<close>
  (404, \<^verbatim>\<open>NoSuchKey\<close>); \<^verbatim>\<open>put_object\<close> and \<^verbatim>\<open>upload_file\<close> write the object.
\<close>

definition s3_head_object :: "env \<Rightarrow> string \<Rightarrow> string \<Rightarrow> world \<Rightarrow> (exn + unit) \<times> world" where
  "s3_head_object env bucket key w =
     (case issue env (HeadObject bucket key) w of
        (Some e, w1) \<Rightarrow> (Inl e, w1)
      | (None, w1) \<Rightarrow>
          (case objects w1 (bucket, key) of
             None \<Rightarrow> (Inl (ClientError ''404''), w1)
           | Some body \<Rightarrow> (Inr (), w1)))"

definition s3_get_object :: "env \<Rightarrow> string \<Rightarrow> string \<Rightarrow> world \<Rightarrow> (exn + string) \<times> world" where
  "s3_get_object env bucket key w =
     (case issue env (GetObject bucket key) w of
        (Some e, w1) \<Rightarrow> (Inl e, w1)
      | (None, w1) \<Rightarrow>
          (case objects w1 (bucket, key) of
             None \<Rightarrow> (Inl (ClientError ''NoSuchKey''), w1)
           | Some body \<Rightarrow> (Inr body, w1)))"

definition s3_put_object :: "env \<Rightarrow> string \<Rightarrow> string \<Rightarrow> string \<Rightarrow> world \<Rightarrow> (exn + unit) \<times> world" where
  "s3_put_object env bucket key body w =
     (case issue env (PutObject bucket key body) w of
        (Some e, w1) \<Rightarrow> (Inl e, w1)
      | (None, w1) \<Rightarrow> (Inr (), w1\<lparr>objects := (objects w1)((bucket, key) \<mapsto> body)\<rparr>))"

definition s3_download_file :: "env \<Rightarrow> string \<Rightarrow> string \<Rightarrow> string \<Rightarrow> world \<Rightarrow> (exn + unit) \<times> world" where
  "s3_download_file env bucket key filename w =
     (case issue env (DownloadFile bucket key filename) w of
        (Some e, w1) \<Rightarrow> (Inl e, w1)
      | (None, w1) \<Rightarrow>
          (case objects w1 (bucket, key) of
             None \<Rightarrow> (Inl (ClientError ''404''), w1)
           | Some body \<Rightarrow> (Inr (), write_file filename body w1)))"

definition s3_upload_file :: "env \<Rightarrow> string \<Rightarrow> string \<Rightarrow> string \<Rightarrow> world \<Rightarrow> (exn + unit) \<times> world" where
  "s3_upload_file env filename bucket key w =
     (case read_file w filename of
        None \<Rightarrow> (Inl (FileNotFoundError filename), w)
      | Some body \<Rightarrow>
          (case issue env (UploadFile filename bucket key) w of
             (Some e, w1) \<Rightarrow> (Inl e, w1)
           | (None, w1) \<Rightarrow> (Inr (), w1\<lparr>objects := (objects w1)((bucket, key) \<mapsto> body)\<rparr>)))"


subsection \<open>The encoder subprocess\<close>

text \<open>
  \<^verbatim>\<open>subprocess.run(cmd, check=True, ...)\<close> for the ffmpeg command line: a non-zero exit
  (also when the input file is missing) raises \<^verbatim>\<open>CalledProcessError\<close>; otherwise the
  output file holds the encoder's result.
\<close>

definition subprocess_run :: "env \<Rightarrow> string list \<Rightarrow> string \<Rightarrow> int \<Rightarrow> string \<Rightarrow> world \<Rightarrow> (exn + unit) \<times> world" where
  "subprocess_run env cmd video_path sample_rate_hz out_path w =
     (case issue env (SubprocessRun cmd) w of
        (Some e, w1) \<Rightarrow> (Inl e, w1)
      | (None, w1) \<Rightarrow>
          (case read_file w1 video_path of
             None \<Rightarrow> (Inl (CalledProcessError cmd), w1)
           | Some video \<Rightarrow> (Inr (), write_file out_path (encoder env video sample_rate_hz) w1)))"


subsection \<open>The Transcribe client\<close>

text \<open>
  The service records a started job with its output location. It answers the \<open>n\<close>-th
  status request with \<^term>\<open>job_reply env n\<close>; when it reports \<^verbatim>\<open>COMPLETED\<close> it has written
  the job's document to that location.
\<close>

definition start_transcription_job ::
  "env \<Rightarrow> string \<Rightarrow> string \<Rightarrow> string \<Rightarrow> string \<Rightarrow> string \<Rightarrow> string \<Rightarrow> world \<Rightarrow> (exn + unit) \<times> world" where
  "start_transcription_job env job_name media_uri media_format language_code out_bucket out_key w =
     (case issue env (StartTranscriptionJob job_name media_uri media_format language_code out_bucket out_key) w of
        (Some e, w1) \<Rightarrow> (Inl e, w1)
      | (None, w1) \<Rightarrow> (Inr (), w1\<lparr>jobs := (jobs w1)(job_name \<mapsto> (out_bucket, out_key))\<rparr>))"

definition deliver_output :: "env \<Rightarrow> string \<Rightarrow> world \<Rightarrow> world" where
  "deliver_output env job_name w =
     (case jobs w job_name of
        None \<Rightarrow> w
      | Some loc \<Rightarrow> w\<lparr>objects := (objects w)(loc \<mapsto> job_output env job_name)\<rparr>)"

definition get_transcription_job :: "env \<Rightarrow> string \<Rightarrow> world \<Rightarrow> (exn + job_response) \<times> world" where
  "get_transcription_job env job_name w =
     (let w1 = w\<lparr>polls := Suc (polls w), trace := trace w @ [GetTranscriptionJob job_name]\<rparr>
      in case job_reply env (polls w) of
           Inl e \<Rightarrow> (Inl e, w1)
         | Inr status \<Rightarrow>
             (Inr status,
              if job_status status = ''COMPLETED'' then deliver_output env job_name w1 else w1))"

definition time_sleep :: "nat \<Rightarrow> world \<Rightarrow> world" where
  "time_sleep secs w = w\<lparr>trace := trace w @ [Sleep secs]\<rparr>"


section \<open>Utility functions\<close>

definition extract_audio_ffmpeg :: "env \<Rightarrow> string \<Rightarrow> int \<Rightarrow> world \<Rightarrow> (exn + string) \<times> world" where
  "extract_audio_ffmpeg env video_path sample_rate_hz w =
     (case NamedTemporaryFile ''.wav'' w of
        (tmp_wav, w1) \<Rightarrow>
          (let cmd = [''ffmpeg'', ''-y'', ''-i'', video_path, ''-ac'', ''1'',
                      ''-ar'', str_int sample_rate_hz, ''-vn'', ''-f'', ''wav'', tmp_wav]
           in case subprocess_run env cmd video_path sample_rate_hz tmp_wav w1 of
                (Inl e, w2) \<Rightarrow> (Inl e, w2)
              | (Inr u, w2) \<Rightarrow> (Inr tmp_wav, w2)))"

definition upload_to_s3 :: "env \<Rightarrow> string \<Rightarrow> string \<Rightarrow> string \<Rightarrow> world \<Rightarrow> (exn + string) \<times> world" where
  "upload_to_s3 env local_path bucket_name key w =
     (case s3_upload_file env local_path bucket_name key w of
        (Inl e, w1) \<Rightarrow> (Inl e, w1)
      | (Inr u, w1) \<Rightarrow> (Inr (''s3://'' @ bucket_name @ ''/'' @ key), w1))"

definition download_from_s3 :: "env \<Rightarrow> string \<Rightarrow> string \<Rightarrow> world \<Rightarrow> (exn + string) \<times> world" where
  "download_from_s3 env bucket_name key w =
     (case NamedTemporaryFile (snd (splitext key)) w of
        (tmp_file, w1) \<Rightarrow>
          (case s3_download_file env bucket_name key tmp_file w1 of
             (Inl e, w2) \<Rightarrow> (Inl e, w2)
           | (Inr u, w2) \<Rightarrow> (Inr tmp_file, w2)))"


section \<open>Cache management\<close>

text \<open>
  \<^verbatim>\<open>check_cache\<close>: the \<^verbatim>\<open>try\<close> block holds \<^verbatim>\<open>head_object\<close>, \<^verbatim>\<open>get_object\<close> and the read
  of the body; \<^verbatim>\<open>except ClientError\<close> turns a \<open>ClientError\<close> of either call, whatever
  its error code, into \<^verbatim>\<open>(False, "")\<close>. Any other exception leaves the function.
\<close>

definition check_cache :: "env \<Rightarrow> string \<Rightarrow> string \<Rightarrow> world \<Rightarrow> (exn + bool \<times> string) \<times> world" where
  "check_cache env bucket_name transcript_key w =
     (case s3_head_object env bucket_name transcript_key w of
        (Inl (ClientError code), w1) \<Rightarrow> (Inr (False, []), w1)
      | (Inl e, w1) \<Rightarrow> (Inl e, w1)
      | (Inr u, w1) \<Rightarrow>
          (case s3_get_object env bucket_name transcript_key w1 of
             (Inl (ClientError code), w2) \<Rightarrow> (Inr (False, []), w2)
           | (Inl e, w2) \<Rightarrow> (Inl e, w2)
           | (Inr transcript, w2) \<Rightarrow> (Inr (True, transcript), w2)))"

definition save_transcript_cache :: "env \<Rightarrow> string \<Rightarrow> string \<Rightarrow> string \<Rightarrow> world \<Rightarrow> (exn + unit) \<times> world" where
  "save_transcript_cache env bucket_name key transcript w =
     s3_put_object env bucket_name key transcript w"


section \<open>Transcription logic\<close>

text \<open>
  The \<^verbatim>\<open>while True\<close> loop of \<^verbatim>\<open>run_transcription_job\<close>: ask for the status, leave on
  \<^verbatim>\<open>COMPLETED\<close> or \<^verbatim>\<open>FAILED\<close>, otherwise sleep ten seconds and ask again. The source
  has no other exit, so the loop is a partial function: \<^const>\<open>None\<close> is a run that
  never leaves it. An exception of the status request leaves the loop as well.
\<close>

partial_function (option) wait_for_job ::
  "env \<Rightarrow> string \<Rightarrow> world \<Rightarrow> ((exn + job_response) \<times> world) option" where
  "wait_for_job env job_name w =
     (case get_transcription_job env job_name w of
        (Inl e, w1) \<Rightarrow> Some (Inl e, w1)
      | (Inr status, w1) \<Rightarrow>
          if job_status status = ''COMPLETED'' \<or> job_status status = ''FAILED''
          then Some (Inr status, w1)
          else wait_for_job env job_name (time_sleep 10 w1))"

declare wait_for_job.simps [code]

text \<open>Line 83: where the job is told to write its document.\<close>

definition output_key_of :: "string \<Rightarrow> string" where
  "output_key_of job_name = ''transcription/'' @ job_name @ ''.json''"

definition run_transcription_job ::
  "env \<Rightarrow> string \<Rightarrow> string \<Rightarrow> string \<Rightarrow> string \<Rightarrow> world \<Rightarrow> ((exn + string) \<times> world) option" where
  "run_transcription_job env job_name s3_audio_uri bucket_name language_code w =
     (let output_key = output_key_of job_name
      in case start_transcription_job env job_name s3_audio_uri ''wav'' language_code
                bucket_name output_key w of
           (Inl e, w1) \<Rightarrow> Some (Inl e, w1)
         | (Inr u, w1) \<Rightarrow>
             (case wait_for_job env job_name w1 of
                None \<Rightarrow> None
              | Some (Inl e, w2) \<Rightarrow> Some (Inl e, w2)
              | Some (Inr status, w2) \<Rightarrow>
                  if job_status status = ''FAILED''
                  then Some (Inl (RuntimeError (''Transcription job failed: '' @ response_repr status)), w2)
                  else Some (Inr output_key, w2)))"


section \<open>Main orchestrator\<close>

text \<open>
  Lines 124 and 125: the \<^verbatim>\<open>assert\<close> on the prefix, then the unpacking of
  \<^verbatim>\<open>s3_video_uri.replace("s3://", "").split("/", 1)\<close> into two names, which raises
  \<^verbatim>\<open>ValueError\<close> when the split yields one piece.
\<close>

definition parse_s3_uri :: "string \<Rightarrow> exn + string \<times> string" where
  "parse_s3_uri s3_video_uri =
     (if \<not> py_startswith s3_video_uri ''s3://''
      then Inl (AssertionError ''Invalid S3 URI format'')
      else case py_split_1 (py_replace s3_video_uri ''s3://'' []) ''/'' of
             [bucket_name, key] \<Rightarrow> Inr (bucket_name, key)
           | pieces \<Rightarrow> Inl (ValueError ''not enough values to unpack (expected 2, got 1)''))"

text \<open>Line 126, lines 128 and 129 and line 150: the names derived from the key.\<close>

definition video_name_of :: "string \<Rightarrow> string" where
  "video_name_of key = hd (py_rsplit_1 (basename key) ''.'')"

definition transcript_key_of :: "string \<Rightarrow> string" where
  "transcript_key_of video_name = ''transcription/'' @ video_name @ ''.txt''"

definition audio_key_of :: "string \<Rightarrow> string" where
  "audio_key_of video_name = ''audio/'' @ video_name @ ''.wav''"

definition job_name_of :: "string \<Rightarrow> int \<Rightarrow> string" where
  "job_name_of video_name epoch = ''transcribe-'' @ video_name @ ''-'' @ str_int epoch"

text \<open>
  Line 161, \<^verbatim>\<open>data["results"]["transcripts"][0]["transcript"]\<close>: subscription of the
  parsed document by a string key and by the index \<^verbatim>\<open>0\<close>, with Python's exceptions.
\<close>

fun getitem_key :: "json \<Rightarrow> string \<Rightarrow> exn + json" where
  "getitem_key (JObj kvs) k = (case map_of kvs k of None \<Rightarrow> Inl (KeyError k) | Some v \<Rightarrow> Inr v)"
| "getitem_key v k = Inl TypeError"

fun getitem_0 :: "json \<Rightarrow> exn + json" where
  "getitem_0 (JArr []) = Inl IndexError"
| "getitem_0 (JArr (x # xs)) = Inr x"
| "getitem_0 (JStr []) = Inl IndexError"
| "getitem_0 (JStr (c # cs)) = Inr (JStr [c])"
| "getitem_0 (JObj kvs) = Inl (KeyError ''0'')"
| "getitem_0 v = Inl TypeError"

definition top_transcript :: "json \<Rightarrow> exn + json" where
  "top_transcript data =
     (case getitem_key data ''results'' of
        Inl e \<Rightarrow> Inl e
      | Inr results \<Rightarrow>
          (case getitem_key results ''transcripts'' of
             Inl e \<Rightarrow> Inl e
           | Inr transcripts \<Rightarrow>
               (case getitem_0 transcripts of
                  Inl e \<Rightarrow> Inl e
                | Inr first \<Rightarrow> getitem_key first ''transcript'')))"

text \<open>
  Lines 158 to 161: fetch the job's document into a temporary file, read it and take
  the top transcript.
\<close>

definition fetch_transcript :: "env \<Rightarrow> string \<Rightarrow> string \<Rightarrow> world \<Rightarrow> (exn + json) \<times> world" where
  "fetch_transcript env bucket_name output_json_key w =
     (case download_from_s3 env bucket_name output_json_key w of
        (Inl e, w1) \<Rightarrow> (Inl e, w1)
      | (Inr tmp_json, w1) \<Rightarrow>
          (case read_file w1 tmp_json of
             None \<Rightarrow> (Inl (FileNotFoundError tmp_json), w1)
           | Some text \<Rightarrow>
               (case json_load env text of
                  Inl e \<Rightarrow> (Inl e, w1)
                | Inr data \<Rightarrow> (top_transcript data, w1))))"

text \<open>
  Lines 165 and 167 for the value just read. The S3 client accepts a \<^verbatim>\<open>str\<close> as
  \<^verbatim>\<open>Body\<close>; for any other JSON value its parameter validation raises before a request
  is sent, so neither the put nor the \<^verbatim>\<open>split\<close> of line 167 happens.
\<close>

definition store_and_return ::
  "env \<Rightarrow> string \<Rightarrow> string \<Rightarrow> json \<Rightarrow> world \<Rightarrow> (exn + string \<times> string list \<times> bool) \<times> world" where
  "store_and_return env bucket_name transcript_key v w =
     (case v of
        JStr full_transcript \<Rightarrow>
          (case save_transcript_cache env bucket_name transcript_key full_transcript w of
             (Inl e, w1) \<Rightarrow> (Inl e, w1)
           | (Inr u, w1) \<Rightarrow> (Inr (full_transcript, py_split full_transcript ''. '', False), w1))
      | other \<Rightarrow> (Inl (BotoCoreError ''ParamValidationError''), w))"

text \<open>
  \<^verbatim>\<open>transcribe_s3_video_with_cache\<close>. The result is \<^const>\<open>None\<close> when the run never
  returns, and otherwise the exception or the triple
  \<^verbatim>\<open>(full_transcript, segments, is_cached)\<close> together with the world the run leaves.
  The region is passed to the clients only and is left out, as is the construction of
  the clients.
\<close>

definition transcribe_s3_video_with_cache ::
  "env \<Rightarrow> string \<Rightarrow> int \<Rightarrow> string \<Rightarrow> world
     \<Rightarrow> ((exn + string \<times> string list \<times> bool) \<times> world) option" where
  "transcribe_s3_video_with_cache env s3_video_uri sample_rate_hz language_code w =
     (case parse_s3_uri s3_video_uri of
        Inl e \<Rightarrow> Some (Inl e, w)
      | Inr (bucket_name, key) \<Rightarrow>
          (let video_name = video_name_of key;
               transcript_key = transcript_key_of video_name;
               audio_key = audio_key_of video_name
           in case check_cache env bucket_name transcript_key w of
                (Inl e, w1) \<Rightarrow> Some (Inl e, w1)
              | (Inr (is_cached, cached_transcript), w1) \<Rightarrow>
                  if is_cached
                  then Some (Inr (cached_transcript, py_split cached_transcript ''. '', True), w1)
                  else
                    (case download_from_s3 env bucket_name key w1 of
                       (Inl e, w2) \<Rightarrow> Some (Inl e, w2)
                     | (Inr tmp_video, w2) \<Rightarrow>
                    (case extract_audio_ffmpeg env tmp_video sample_rate_hz w2 of
                       (Inl e, w3) \<Rightarrow> Some (Inl e, w3)
                     | (Inr wav_path, w3) \<Rightarrow>
                    (case upload_to_s3 env wav_path bucket_name audio_key w3 of
                       (Inl e, w4) \<Rightarrow> Some (Inl e, w4)
                     | (Inr s3_audio_uri, w4) \<Rightarrow>
                    (let job_name = job_name_of video_name (now env)
                     in case run_transcription_job env job_name s3_audio_uri bucket_name
                               language_code w4 of
                          None \<Rightarrow> None
                        | Some (Inl e, w5) \<Rightarrow> Some (Inl e, w5)
                        | Some (Inr output_json_key, w5) \<Rightarrow>
                    (case fetch_transcript env bucket_name output_json_key w5 of
                       (Inl e, w6) \<Rightarrow> Some (Inl e, w6)
                     | (Inr v, w6) \<Rightarrow>
                         Some (store_and_return env bucket_name transcript_key v w6))))))))"


section \<open>Observations on runs\<close>

text \<open>
  What the statements below read off a run: its result, the world it leaves, the paths
  of the local files, the external calls it added to the trace, the store address and
  the job an external call names, and whether a call is a put or an exception a
  \<open>ClientError\<close>.
\<close>

definition outcome :: "('r \<times> world) option \<Rightarrow> 'r option" where
  "outcome run = map_option fst run"

definition world_after :: "('r \<times> world) option \<Rightarrow> world" where
  "world_after run = snd (the run)"

definition paths :: "world \<Rightarrow> string list" where
  "paths w = map fst (files w)"

definition new_events :: "world \<Rightarrow> world \<Rightarrow> event list" where
  "new_events w w' = drop (length (trace w)) (trace w')"

fun store_address :: "event \<Rightarrow> (string \<times> string) option" where
  "store_address (HeadObject b k) = Some (b, k)"
| "store_address (GetObject b k) = Some (b, k)"
| "store_address (PutObject b k body) = Some (b, k)"
| "store_address (DownloadFile b k p) = Some (b, k)"
| "store_address (UploadFile p b k) = Some (b, k)"
| "store_address (StartTranscriptionJob jn uri fmt lang b k) = Some (b, k)"
| "store_address ev = None"

fun job_of :: "event \<Rightarrow> string option" where
  "job_of (StartTranscriptionJob jn uri fmt lang b k) = Some jn"
| "job_of (GetTranscriptionJob jn) = Some jn"
| "job_of ev = None"

fun is_put :: "event \<Rightarrow> bool" where
  "is_put (PutObject b k body) = True"
| "is_put ev = False"

fun is_client_error :: "exn \<Rightarrow> bool" where
  "is_client_error (ClientError code) = True"
| "is_client_error e = False"

text \<open>
  A status is terminal when the loop leaves on it; an answer leaves the loop when it
  is an exception or a terminal status. \<open>poll_events jn n\<close> is the trace of a loop
  that asks \<open>n + 1\<close> times: a sleep of ten seconds after each of the first \<open>n\<close>
  requests.
\<close>

definition terminal :: "job_response \<Rightarrow> bool" where
  "terminal resp = (job_status resp = ''COMPLETED'' \<or> job_status resp = ''FAILED'')"

fun leaves_loop :: "exn + job_response \<Rightarrow> bool" where
  "leaves_loop (Inl e) = True"
| "leaves_loop (Inr resp) = terminal resp"

definition poll_events :: "string \<Rightarrow> nat \<Rightarrow> event list" where
  "poll_events jn n =
     concat (replicate n [GetTranscriptionJob jn, Sleep 10]) @ [GetTranscriptionJob jn]"

definition loop_exit :: "env \<Rightarrow> string \<Rightarrow> world \<Rightarrow> (exn + job_response) \<times> world \<Rightarrow> bool" where
  "loop_exit env jn w y =
     (\<exists>n. fst y = job_reply env (polls w + n) \<and> leaves_loop (fst y)
        \<and> (\<forall>i<n. \<not> leaves_loop (job_reply env (polls w + i)))
        \<and> polls (snd y) = polls w + Suc n \<and> paths (snd y) = paths w
        \<and> trace (snd y) = trace w @ poll_events jn n
        \<and> ((\<forall>resp. fst y = Inr resp \<longrightarrow> job_status resp \<noteq> ''COMPLETED'')
             \<longrightarrow> objects (snd y) = objects w))"


text \<open>
  \<open>advances P w w'\<close>: the trace of \<open>w'\<close> extends the trace of \<open>w\<close> by calls that
  all satisfy \<open>P\<close>. \<open>planned env b key\<close> holds of a call that names no store
  address other than the video's own and the three derived from its key, and no job
  other than the one named from the key and the clock.
\<close>

definition advances :: "(event \<Rightarrow> bool) \<Rightarrow> world \<Rightarrow> world \<Rightarrow> bool" where
  "advances P w w' = (\<exists>evs. trace w' = trace w @ evs \<and> (\<forall>ev\<in>set evs. P ev))"

definition planned :: "env \<Rightarrow> string \<Rightarrow> string \<Rightarrow> event \<Rightarrow> bool" where
  "planned env b key ev =
     ((\<forall>a. store_address ev = Some a \<longrightarrow>
         a \<in> {(b, key),
              (b, transcript_key_of (video_name_of key)),
              (b, audio_key_of (video_name_of key)),
              (b, output_key_of (job_name_of (video_name_of key) (now env)))})
    \<and> (\<forall>jn. job_of ev = Some jn \<longrightarrow> jn = job_name_of (video_name_of key) (now env)))"


section \<open>Scenarios\<close>

text \<open>
  Concrete environments and worlds on which the statements are evaluated. The bucket
  and the key layout are those of \<^verbatim>\<open>app.py\<close>
  (\<^verbatim>\<open>meeting-mind-library\<close>, \<^verbatim>\<open>video/<file name>\<close>).
\<close>

definition sample_doc :: json where
  "sample_doc =
     JObj [(''results'',
       JObj [(''transcripts'',
         JArr [JObj [(''transcript'', JStr ''Hello world. This is a test.'')]])])]"

definition in_progress :: job_response where
  "in_progress = \<lparr>job_status = ''IN_PROGRESS'', response_repr = ''{IN_PROGRESS}''\<rparr>"

definition completed :: job_response where
  "completed = \<lparr>job_status = ''COMPLETED'', response_repr = ''{COMPLETED}''\<rparr>"

definition failed :: job_response where
  "failed = \<lparr>job_status = ''FAILED'', response_repr = ''{FAILED}''\<rparr>"

definition other_doc :: json where
  "other_doc =
     JObj [(''results'', JObj [(''transcripts'', JArr [JObj [(''transcript'', JStr ''Other meeting.'')]])])]"

text \<open>
  No call fails; the job is in progress for two requests and then completed. The job
  named at epoch 1700000000 yields the sample document, any other job the other one.
\<close>

definition sample_env :: env where
  "sample_env =
     \<lparr>fault = (\<lambda>ev. None),
      encoder = (\<lambda>video rate. ''RIFF'' @ video),
      now = 1700000000,
      job_reply = (\<lambda>n. if n < 2 then Inr in_progress else Inr completed),
      job_output = (\<lambda>job. if job = ''transcribe-team-sync-1700000000'' then ''{doc}''
                          else ''{other}''),
      json_load = (\<lambda>text. if text = ''{doc}'' then Inr sample_doc
                           else if text = ''{other}'' then Inr other_doc
                           else Inl (ValueError ''JSONDecodeError''))\<rparr>"

text \<open>The same, ten minutes later.\<close>

definition later_env :: env where
  "later_env = sample_env\<lparr>now := 1700000600\<rparr>"

text \<open>The same, with a job that stays in progress for ever.\<close>

definition stuck_env :: env where
  "stuck_env = sample_env\<lparr>job_reply := (\<lambda>n. Inr in_progress)\<rparr>"

text \<open>The same, with a job that fails after one request in progress.\<close>

definition failing_env :: env where
  "failing_env = sample_env\<lparr>job_reply := (\<lambda>n. if n < 1 then Inr in_progress else Inr failed)\<rparr>"

text \<open>The store answers \<^verbatim>\<open>head_object\<close> with 403, access denied.\<close>

definition denied_env :: env where
  "denied_env =
     sample_env\<lparr>fault := (\<lambda>ev. case ev of HeadObject b k \<Rightarrow> Some (ClientError ''403'')
                                 | other \<Rightarrow> None)\<rparr>"

text \<open>The store throttles \<^verbatim>\<open>get_object\<close>.\<close>

definition throttled_env :: env where
  "throttled_env =
     sample_env\<lparr>fault := (\<lambda>ev. case ev of GetObject b k \<Rightarrow> Some (ClientError ''SlowDown'')
                                 | other \<Rightarrow> None)\<rparr>"

text \<open>The store cannot be reached: \<^verbatim>\<open>head_object\<close> raises a connection error.\<close>

definition offline_env :: env where
  "offline_env =
     sample_env\<lparr>fault := (\<lambda>ev. case ev of HeadObject b k \<Rightarrow> Some (BotoCoreError ''EndpointConnectionError'')
                                 | other \<Rightarrow> None)\<rparr>"

text \<open>The client rejects a request with an empty bucket or key before sending it.\<close>

definition strict_env :: env where
  "strict_env =
     sample_env\<lparr>fault := (\<lambda>ev. case store_address ev of
                                   None \<Rightarrow> None
                                 | Some (b, k) \<Rightarrow>
                                     if b = [] \<or> k = []
                                     then Some (BotoCoreError ''ParamValidationError'')
                                     else None)\<rparr>"

text \<open>A store holding one uploaded video and nothing else.\<close>

definition sample_world :: world where
  "sample_world =
     \<lparr>objects = [(''meeting-mind-library'', ''video/team-sync.mp4'') \<mapsto> ''MP4''],
      files = [], jobs = Map.empty, polls = 0, trace = []\<rparr>"

text \<open>A store that also holds the transcript of that video.\<close>

definition cached_world :: world where
  "cached_world =
     sample_world\<lparr>objects := (objects sample_world)
        ((''meeting-mind-library'', ''transcription/team-sync.txt'') \<mapsto> ''Hello world. This is a test.'')\<rparr>"

text \<open>
  A store holding two videos of the same base name in two buckets, and a third one of
  that base name under another prefix and extension of the first bucket.
\<close>

definition shared_world :: world where
  "shared_world =
     \<lparr>objects = [(''meeting-mind-library'', ''video/team-sync.mp4'') \<mapsto> ''MP4'',
                 (''other-library'', ''video/team-sync.mp4'') \<mapsto> ''MP4-2'',
                 (''meeting-mind-library'', ''archive/team-sync.mov'') \<mapsto> ''MOV''],
      files = [], jobs = Map.empty, polls = 0, trace = []\<rparr>"


text \<open>The world the sample run leaves.\<close>

definition sample_world_after :: world where
  "sample_world_after =
     \<lparr>objects = [(''meeting-mind-library'', ''video/team-sync.mp4'') \<mapsto> ''MP4'',
                 (''meeting-mind-library'', ''audio/team-sync.wav'') \<mapsto> ''RIFFMP4'',
                 (''meeting-mind-library'', ''transcription/transcribe-team-sync-1700000000.json'') \<mapsto> ''{doc}'',
                 (''meeting-mind-library'', ''transcription/team-sync.txt'') \<mapsto> ''Hello world. This is a test.''],
      files = [(''/tmp/tmp0.mp4'', ''MP4''), (''/tmp/tmp1.wav'', ''RIFFMP4''), (''/tmp/tmp2.json'', ''{doc}'')],
      jobs = [''transcribe-team-sync-1700000000'' \<mapsto>
                (''meeting-mind-library'', ''transcription/transcribe-team-sync-1700000000.json'')],
      polls = 3,
      trace =
        [HeadObject ''meeting-mind-library'' ''transcription/team-sync.txt'',
         DownloadFile ''meeting-mind-library'' ''video/team-sync.mp4'' ''/tmp/tmp0.mp4'',
         SubprocessRun [''ffmpeg'', ''-y'', ''-i'', ''/tmp/tmp0.mp4'', ''-ac'', ''1'', ''-ar'', ''16000'',
                        ''-vn'', ''-f'', ''wav'', ''/tmp/tmp1.wav''],
         UploadFile ''/tmp/tmp1.wav'' ''meeting-mind-library'' ''audio/team-sync.wav'',
         StartTranscriptionJob ''transcribe-team-sync-1700000000''
           ''s3://meeting-mind-library/audio/team-sync.wav'' ''wav'' ''en-US''
           ''meeting-mind-library'' ''transcription/transcribe-team-sync-1700000000.json'',
         GetTranscriptionJob ''transcribe-team-sync-1700000000'', Sleep 10,
         GetTranscriptionJob ''transcribe-team-sync-1700000000'', Sleep 10,
         GetTranscriptionJob ''transcribe-team-sync-1700000000'',
         DownloadFile ''meeting-mind-library'' ''transcription/transcribe-team-sync-1700000000.json''
           ''/tmp/tmp2.json'',
         PutObject ''meeting-mind-library'' ''transcription/team-sync.txt''
           ''Hello world. This is a test.'']\<rparr>"


text \<open>The world the sample run leaves when the job fails.\<close>

definition failing_world_after :: world where
  "failing_world_after =
     \<lparr>objects = [(''meeting-mind-library'', ''video/team-sync.mp4'') \<mapsto> ''MP4'',
                 (''meeting-mind-library'', ''audio/team-sync.wav'') \<mapsto> ''RIFFMP4''],
      files = [(''/tmp/tmp0.mp4'', ''MP4''), (''/tmp/tmp1.wav'', ''RIFFMP4'')],
      jobs = [''transcribe-team-sync-1700000000'' \<mapsto>
                (''meeting-mind-library'', ''transcription/transcribe-team-sync-1700000000.json'')],
      polls = 2,
      trace =
        [HeadObject ''meeting-mind-library'' ''transcription/team-sync.txt'',
         DownloadFile ''meeting-mind-library'' ''video/team-sync.mp4'' ''/tmp/tmp0.mp4'',
         SubprocessRun [''ffmpeg'', ''-y'', ''-i'', ''/tmp/tmp0.mp4'', ''-ac'', ''1'', ''-ar'', ''16000'',
                        ''-vn'', ''-f'', ''wav'', ''/tmp/tmp1.wav''],
         UploadFile ''/tmp/tmp1.wav'' ''meeting-mind-library'' ''audio/team-sync.wav'',
         StartTranscriptionJob ''transcribe-team-sync-1700000000''
           ''s3://meeting-mind-library/audio/team-sync.wav'' ''wav'' ''en-US''
           ''meeting-mind-library'' ''transcription/transcribe-team-sync-1700000000.json'',
         GetTranscriptionJob ''transcribe-team-sync-1700000000'', Sleep 10,
         GetTranscriptionJob ''transcribe-team-sync-1700000000'']\<rparr>"

text \<open>The world the sample run leaves on the store with two buckets.\<close>

definition shared_world_after :: world where
  "shared_world_after =
     \<lparr>objects = [(''meeting-mind-library'', ''video/team-sync.mp4'') \<mapsto> ''MP4'',
                 (''other-library'', ''video/team-sync.mp4'') \<mapsto> ''MP4-2'',
                 (''meeting-mind-library'', ''archive/team-sync.mov'') \<mapsto> ''MOV'',
                 (''meeting-mind-library'', ''audio/team-sync.wav'') \<mapsto> ''RIFFMP4'',
                 (''meeting-mind-library'', ''transcription/transcribe-team-sync-1700000000.json'') \<mapsto> ''{doc}'',
                 (''meeting-mind-library'', ''transcription/team-sync.txt'') \<mapsto> ''Hello world. This is a test.''],
      files = [(''/tmp/tmp0.mp4'', ''MP4''), (''/tmp/tmp1.wav'', ''RIFFMP4''), (''/tmp/tmp2.json'', ''{doc}'')],
      jobs = [''transcribe-team-sync-1700000000'' \<mapsto>
                (''meeting-mind-library'', ''transcription/transcribe-team-sync-1700000000.json'')],
      polls = 3,
      trace = trace sample_world_after\<rparr>"


section \<open>The effect of each stage\<close>

text \<open>
  What each function does to the store, the local files, the count of status requests
  and the trace, whatever its result.
\<close>

text \<open>\<^verbatim>\<open>rsplit\<close> yields at least one piece, so its element \<^verbatim>\<open>[0]\<close> exists.\<close>

lemma py_rsplit_1_nonempty: "py_rsplit_1 s sep \<noteq> []"
  by (simp add: py_rsplit_1_def split: option.splits)

lemma video_name_of_cases:
  "video_name_of key =
     (case py_rfind (basename key) ''.'' of None \<Rightarrow> basename key | Some i \<Rightarrow> take i (basename key))"
  by (simp add: video_name_of_def py_rsplit_1_def split: option.splits)

lemma paths_write_file: "paths (write_file p body w) = paths w"
  by (simp add: paths_def write_file_def case_prod_unfold comp_def)

lemma write_file_fields:
  "objects (write_file p body w) = objects w"
  "polls (write_file p body w) = polls w"
  "trace (write_file p body w) = trace w"
  "jobs (write_file p body w) = jobs w"
  by (simp_all add: write_file_def)

lemma check_cache_effect:
  assumes "check_cache env b k w = (r, w')"
  shows "objects w' = objects w \<and> paths w' = paths w \<and> polls w' = polls w
     \<and> (trace w' = trace w @ [HeadObject b k]
        \<or> trace w' = trace w @ [HeadObject b k, GetObject b k])"
  using assms
  by (auto simp: check_cache_def s3_head_object_def s3_get_object_def issue_def paths_def
      split: option.splits exn.splits sum.splits prod.splits)

lemma check_cache_hit:
  assumes "check_cache env b k w = (Inr (True, T), w')"
  shows "w' = w\<lparr>trace := trace w @ [HeadObject b k, GetObject b k]\<rparr> \<and> objects w (b, k) = Some T"
  using assms
  by (auto simp: check_cache_def s3_head_object_def s3_get_object_def issue_def
      split: option.splits exn.splits sum.splits prod.splits)

lemma check_cache_found:
  assumes "objects w (b, k) = Some T"
    and "fault env (HeadObject b k) = None" and "fault env (GetObject b k) = None"
  shows "check_cache env b k w
     = (Inr (True, T), w\<lparr>trace := trace w @ [HeadObject b k, GetObject b k]\<rparr>)"
  using assms
  by (simp add: check_cache_def s3_head_object_def s3_get_object_def issue_def)

lemma download_from_s3_effect:
  assumes "download_from_s3 env b k w = (r, w')"
  shows "objects w' = objects w \<and> polls w' = polls w
     \<and> (\<exists>p. paths w' = paths w @ [p] \<and> trace w' = trace w @ [DownloadFile b k p])"
  using assms
  by (auto simp: download_from_s3_def s3_download_file_def NamedTemporaryFile_def issue_def
      paths_def Let_def write_file_fields paths_write_file[unfolded paths_def]
      split: option.splits sum.splits prod.splits)

lemma extract_audio_ffmpeg_effect:
  assumes "extract_audio_ffmpeg env v rate w = (r, w')"
  shows "objects w' = objects w \<and> polls w' = polls w
     \<and> (\<exists>p cmd. paths w' = paths w @ [p] \<and> trace w' = trace w @ [SubprocessRun cmd])"
  using assms
  by (auto simp: extract_audio_ffmpeg_def subprocess_run_def NamedTemporaryFile_def issue_def
      paths_def Let_def write_file_fields paths_write_file[unfolded paths_def]
      split: option.splits sum.splits prod.splits)

lemma upload_to_s3_effect:
  assumes "upload_to_s3 env p b k w = (r, w')"
  shows "paths w' = paths w \<and> polls w' = polls w
     \<and> (\<forall>a. a \<noteq> (b, k) \<longrightarrow> objects w' a = objects w a)
     \<and> (trace w' = trace w \<or> trace w' = trace w @ [UploadFile p b k])
     \<and> (\<forall>u. r = Inr u \<longrightarrow> u = ''s3://'' @ b @ ''/'' @ k)"
  using assms
  by (auto simp: upload_to_s3_def s3_upload_file_def issue_def paths_def
      split: option.splits sum.splits prod.splits)

lemma start_transcription_job_effect:
  assumes "start_transcription_job env jn uri fmt lang b k w = (r, w')"
  shows "objects w' = objects w \<and> paths w' = paths w \<and> polls w' = polls w
     \<and> trace w' = trace w @ [StartTranscriptionJob jn uri fmt lang b k]"
  using assms
  by (auto simp: start_transcription_job_def issue_def paths_def split: option.splits)

lemma get_transcription_job_effect:
  assumes "get_transcription_job env jn w = (r, w')"
  shows "r = job_reply env (polls w) \<and> polls w' = Suc (polls w) \<and> paths w' = paths w
     \<and> trace w' = trace w @ [GetTranscriptionJob jn]
     \<and> ((\<forall>resp. r = Inr resp \<longrightarrow> job_status resp \<noteq> ''COMPLETED'') \<longrightarrow> objects w' = objects w)"
  using assms
  by (auto simp: get_transcription_job_def Let_def deliver_output_def paths_def
      split: sum.splits option.splits if_splits)

lemma time_sleep_effect:
  "polls (time_sleep n w) = polls w" "paths (time_sleep n w) = paths w"
  "trace (time_sleep n w) = trace w @ [Sleep n]" "objects (time_sleep n w) = objects w"
  by (simp_all add: time_sleep_def paths_def)

lemma fetch_transcript_effect:
  assumes "fetch_transcript env b k w = (r, w')"
  shows "objects w' = objects w \<and> polls w' = polls w
     \<and> (\<exists>p. paths w' = paths w @ [p] \<and> trace w' = trace w @ [DownloadFile b k p])"
  using assms download_from_s3_effect[of env b k w]
  by (auto simp: fetch_transcript_def split: option.splits sum.splits prod.splits)

lemma store_and_return_effect:
  assumes "store_and_return env b k v w = (r, w')"
  shows "paths w' = paths w \<and> polls w' = polls w
     \<and> (trace w' = trace w \<or> (\<exists>T. trace w' = trace w @ [PutObject b k T]))
     \<and> (case r of
           Inl e \<Rightarrow> objects w' = objects w
         | Inr (T, segs, c) \<Rightarrow>
             segs = py_split T ''. '' \<and> \<not> c \<and> objects w' = (objects w)((b, k) \<mapsto> T)
               \<and> trace w' = trace w @ [PutObject b k T])"
  using assms
  by (auto simp: store_and_return_def save_transcript_cache_def s3_put_object_def issue_def
      paths_def split: json.splits option.splits sum.splits prod.splits)


section \<open>The poll loop\<close>

text \<open>
  The loop is partial, so its two halves are proved apart: what holds of every result
  it returns, by the fixed-point induction of the definition, and that it returns as
  soon as one answer leaves it, by induction on the number of answers before that one.
\<close>

lemma poll_events_Suc:
  "GetTranscriptionJob jn # Sleep 10 # poll_events jn n = poll_events jn (Suc n)"
  by (simp add: poll_events_def)

lemma in_poll_events:
  "ev \<in> set (poll_events jn n) \<longleftrightarrow> ev = GetTranscriptionJob jn \<or> (n \<noteq> 0 \<and> ev = Sleep 10)"
  by (auto simp: poll_events_def)

lemma first_exit_unique:
  assumes "\<forall>i<n. \<not> P (i::nat)" and "P n" and "\<forall>i<m. \<not> P i" and "P m"
  shows "m = n"
  using assms by (meson linorder_neqE_nat)

text \<open>Whenever the loop returns, it returns the first answer that leaves it.\<close>

lemma wait_for_job_exit:
  assumes "wait_for_job env jn w = Some y"
  shows "loop_exit env jn w y"
proof (rule wait_for_job.raw_induct[where P = loop_exit, OF _ assms])
  fix wait env jn w y
  assume IH: "\<And>env jn w y. wait env jn w = Some y \<Longrightarrow> loop_exit env jn w y"
    and step: "(case get_transcription_job env jn w of
        (Inl e, w1) \<Rightarrow> Some (Inl e, w1)
      | (Inr status, w1) \<Rightarrow>
          if job_status status = ''COMPLETED'' \<or> job_status status = ''FAILED''
          then Some (Inr status, w1)
          else wait env jn (time_sleep 10 w1)) = Some y"
  obtain g w1 where g: "get_transcription_job env jn w = (g, w1)"
    by (cases "get_transcription_job env jn w")
  note eff = get_transcription_job_effect[OF g]
  show "loop_exit env jn w y"
  proof (cases "leaves_loop g")
    case True
    with step g have "y = (g, w1)"
      by (auto simp: terminal_def split: sum.splits if_splits)
    with eff True show ?thesis
      unfolding loop_exit_def by (intro exI[of _ 0]) (simp add: poll_events_def)
  next
    case False
    then obtain resp where resp: "g = Inr resp" "\<not> terminal resp"
      by (cases g) auto
    with step g have rec: "wait env jn (time_sleep 10 w1) = Some y"
      by (simp add: terminal_def)
    from IH[OF rec] obtain n where n:
      "fst y = job_reply env (polls (time_sleep 10 w1) + n)" "leaves_loop (fst y)"
      "\<forall>i<n. \<not> leaves_loop (job_reply env (polls (time_sleep 10 w1) + i))"
      "polls (snd y) = polls (time_sleep 10 w1) + Suc n"
      "paths (snd y) = paths (time_sleep 10 w1)"
      "trace (snd y) = trace (time_sleep 10 w1) @ poll_events jn n"
      "(\<forall>resp. fst y = Inr resp \<longrightarrow> job_status resp \<noteq> ''COMPLETED'')
         \<longrightarrow> objects (snd y) = objects (time_sleep 10 w1)"
      unfolding loop_exit_def by blast
    have notc: "job_status resp \<noteq> ''COMPLETED''"
      using resp(2) by (simp add: terminal_def)
    have before: "\<forall>i<Suc n. \<not> leaves_loop (job_reply env (polls w + i))"
    proof (intro allI impI)
      fix i assume "i < Suc n"
      show "\<not> leaves_loop (job_reply env (polls w + i))"
      proof (cases i)
        case 0
        with eff False show ?thesis by simp
      next
        case (Suc j)
        with \<open>i < Suc n\<close> n(3) eff show ?thesis
          by (simp add: time_sleep_effect)
      qed
    qed
    from n eff resp notc before show ?thesis
      unfolding loop_exit_def
      by (intro exI[of _ "Suc n"]) (simp add: time_sleep_effect poll_events_Suc[symmetric])
  qed
qed

text \<open>The loop returns as soon as some answer leaves it.\<close>

lemma wait_for_job_complete:
  assumes "leaves_loop (job_reply env (polls w + n))"
  shows "\<exists>res. wait_for_job env jn w = Some res"
  using assms
proof (induction n arbitrary: w rule: less_induct)
  case (less n)
  obtain g w1 where g: "get_transcription_job env jn w = (g, w1)"
    by (cases "get_transcription_job env jn w")
  note eff = get_transcription_job_effect[OF g]
  show ?case
  proof (cases "leaves_loop g")
    case True
    with g show ?thesis
      by (subst wait_for_job.simps) (auto simp: terminal_def split: sum.splits)
  next
    case False
    then obtain resp where resp: "g = Inr resp" "\<not> terminal resp"
      by (cases g) auto
    from False eff less.prems have "n \<noteq> 0"
      by (cases n) auto
    then obtain m where m: "n = Suc m" by (cases n) auto
    with less.prems eff have "leaves_loop (job_reply env (polls (time_sleep 10 w1) + m))"
      by (simp add: time_sleep_effect)
    from less.IH[OF _ this] m obtain res where "wait_for_job env jn (time_sleep 10 w1) = Some res"
      by auto
    with g resp show ?thesis
      by (subst wait_for_job.simps) (simp add: terminal_def)
  qed
qed

lemma run_transcription_job_effect:
  assumes "run_transcription_job env jn uri b lang w = Some (r, w')"
  shows "paths w' = paths w
     \<and> ((\<forall>k. r \<noteq> Inr k) \<longrightarrow> objects w' = objects w)
     \<and> (\<forall>k. r = Inr k \<longrightarrow> k = output_key_of jn)
     \<and> (polls w' = polls w \<and> (\<exists>e. r = Inl e)
          \<and> trace w' = trace w @ [StartTranscriptionJob jn uri ''wav'' lang b (output_key_of jn)]
        \<or> (\<exists>n. polls w' = polls w + Suc n
              \<and> trace w' = trace w
                   @ StartTranscriptionJob jn uri ''wav'' lang b (output_key_of jn) # poll_events jn n
              \<and> (\<forall>i<n. \<not> leaves_loop (job_reply env (polls w + i)))
              \<and> leaves_loop (job_reply env (polls w + n))
              \<and> (case job_reply env (polls w + n) of
                    Inl e \<Rightarrow> r = Inl e
                  | Inr resp \<Rightarrow>
                      r = (if job_status resp = ''FAILED''
                           then Inl (RuntimeError (''Transcription job failed: '' @ response_repr resp))
                           else Inr (output_key_of jn)))))"
proof -
  obtain s w1 where s:
    "start_transcription_job env jn uri ''wav'' lang b (output_key_of jn) w = (s, w1)"
    by (cases "start_transcription_job env jn uri ''wav'' lang b (output_key_of jn) w")
  note se = start_transcription_job_effect[OF s]
  show ?thesis
  proof (cases s)
    case (Inl e)
    with assms s se show ?thesis
      by (auto simp: run_transcription_job_def Let_def)
  next
    case (Inr u)
    with assms s obtain y where y: "wait_for_job env jn w1 = Some y"
      by (auto simp: run_transcription_job_def Let_def split: option.splits)
    from wait_for_job_exit[OF y] obtain n where n:
      "fst y = job_reply env (polls w1 + n)" "leaves_loop (fst y)"
      "\<forall>i<n. \<not> leaves_loop (job_reply env (polls w1 + i))"
      "polls (snd y) = polls w1 + Suc n" "paths (snd y) = paths w1"
      "trace (snd y) = trace w1 @ poll_events jn n"
      "(\<forall>resp. fst y = Inr resp \<longrightarrow> job_status resp \<noteq> ''COMPLETED'') \<longrightarrow> objects (snd y) = objects w1"
      unfolding loop_exit_def by blast
    from assms s Inr y have r: "w' = snd y"
      "r = (case fst y of Inl e \<Rightarrow> Inl e
            | Inr resp \<Rightarrow> if job_status resp = ''FAILED''
                then Inl (RuntimeError (''Transcription job failed: '' @ response_repr resp))
                else Inr (output_key_of jn))"
      by (auto simp: run_transcription_job_def Let_def split: sum.splits prod.splits if_splits)
    have ob: "(\<forall>k. r \<noteq> Inr k) \<longrightarrow> objects w' = objects w"
      using n(2,7) se r by (cases "fst y") (auto simp: terminal_def split: if_splits)
    have po: "\<exists>n. polls w' = polls w + Suc n
              \<and> trace w' = trace w
                   @ StartTranscriptionJob jn uri ''wav'' lang b (output_key_of jn) # poll_events jn n
              \<and> (\<forall>i<n. \<not> leaves_loop (job_reply env (polls w + i)))
              \<and> leaves_loop (job_reply env (polls w + n))
              \<and> (case job_reply env (polls w + n) of
                    Inl e \<Rightarrow> r = Inl e
                  | Inr resp \<Rightarrow>
                      r = (if job_status resp = ''FAILED''
                           then Inl (RuntimeError (''Transcription job failed: '' @ response_repr resp))
                           else Inr (output_key_of jn)))"
      using n(1,2,3,4,6) se r by (intro exI[of _ n]) (auto split: sum.splits)
    from ob po n(5) se r show ?thesis
      by (auto split: sum.splits if_splits)
  qed
qed

lemma run_transcription_job_returns:
  assumes "leaves_loop (job_reply env (polls w + n))"
  shows "\<exists>res. run_transcription_job env jn uri b lang w = Some res"
proof -
  obtain s w1 where s:
    "start_transcription_job env jn uri ''wav'' lang b (output_key_of jn) w = (s, w1)"
    by (cases "start_transcription_job env jn uri ''wav'' lang b (output_key_of jn) w")
  from start_transcription_job_effect[OF s] assms
  have "leaves_loop (job_reply env (polls w1 + n))" by simp
  from wait_for_job_complete[OF this] obtain res where "wait_for_job env jn w1 = Some res"
    by blast
  with s show ?thesis
    by (cases s; cases res; cases "fst res")
       (auto simp: run_transcription_job_def Let_def split: sum.splits)
qed



section \<open>The orchestrator, stage by stage\<close>

text \<open>
  A run that returns stopped at one of eight places: at the lookup with an exception or
  with a hit, at one of the five stages after it with an exception, or at the final
  store. Each case names the worlds between the stages it went through.
\<close>

lemma transcribe_cases [consumes 2, case_names lookup_error hit download_error extract_error
    upload_error job_error fetch_error finish]:
  assumes "transcribe_s3_video_with_cache env uri rate lang w = Some (r, w')"
    and "parse_s3_uri uri = Inr (b, key)"
  obtains
    (lookup_error) e where
      "check_cache env b (transcript_key_of (video_name_of key)) w = (Inl e, w')"
      "r = Inl e"
  | (hit) T where
      "check_cache env b (transcript_key_of (video_name_of key)) w = (Inr (True, T), w')"
      "r = Inr (T, py_split T ''. '', True)"
  | (download_error) x w1 e where
      "check_cache env b (transcript_key_of (video_name_of key)) w = (Inr (False, x), w1)"
      "download_from_s3 env b key w1 = (Inl e, w')"
      "r = Inl e"
  | (extract_error) x w1 v w2 e where
      "check_cache env b (transcript_key_of (video_name_of key)) w = (Inr (False, x), w1)"
      "download_from_s3 env b key w1 = (Inr v, w2)"
      "extract_audio_ffmpeg env v rate w2 = (Inl e, w')"
      "r = Inl e"
  | (upload_error) x w1 v w2 a w3 e where
      "check_cache env b (transcript_key_of (video_name_of key)) w = (Inr (False, x), w1)"
      "download_from_s3 env b key w1 = (Inr v, w2)"
      "extract_audio_ffmpeg env v rate w2 = (Inr a, w3)"
      "upload_to_s3 env a b (audio_key_of (video_name_of key)) w3 = (Inl e, w')"
      "r = Inl e"
  | (job_error) x w1 v w2 a w3 u w4 e where
      "check_cache env b (transcript_key_of (video_name_of key)) w = (Inr (False, x), w1)"
      "download_from_s3 env b key w1 = (Inr v, w2)"
      "extract_audio_ffmpeg env v rate w2 = (Inr a, w3)"
      "upload_to_s3 env a b (audio_key_of (video_name_of key)) w3 = (Inr u, w4)"
      "run_transcription_job env (job_name_of (video_name_of key) (now env)) u b lang w4
         = Some (Inl e, w')"
      "r = Inl e"
  | (fetch_error) x w1 v w2 a w3 u w4 k w5 e where
      "check_cache env b (transcript_key_of (video_name_of key)) w = (Inr (False, x), w1)"
      "download_from_s3 env b key w1 = (Inr v, w2)"
      "extract_audio_ffmpeg env v rate w2 = (Inr a, w3)"
      "upload_to_s3 env a b (audio_key_of (video_name_of key)) w3 = (Inr u, w4)"
      "run_transcription_job env (job_name_of (video_name_of key) (now env)) u b lang w4
         = Some (Inr k, w5)"
      "k = output_key_of (job_name_of (video_name_of key) (now env))"
      "fetch_transcript env b k w5 = (Inl e, w')"
      "r = Inl e"
  | (finish) x w1 v w2 a w3 u w4 k w5 j w6 where
      "check_cache env b (transcript_key_of (video_name_of key)) w = (Inr (False, x), w1)"
      "download_from_s3 env b key w1 = (Inr v, w2)"
      "extract_audio_ffmpeg env v rate w2 = (Inr a, w3)"
      "upload_to_s3 env a b (audio_key_of (video_name_of key)) w3 = (Inr u, w4)"
      "run_transcription_job env (job_name_of (video_name_of key) (now env)) u b lang w4
         = Some (Inr k, w5)"
      "k = output_key_of (job_name_of (video_name_of key) (now env))"
      "fetch_transcript env b k w5 = (Inr j, w6)"
      "store_and_return env b (transcript_key_of (video_name_of key)) j w6 = (r, w')"
proof -
  have key: "k = output_key_of jn" if "run_transcription_job env jn u b lang w4 = Some (Inr k, w5)"
    for jn u w4 k w5
    using run_transcription_job_effect[OF that] by simp
  show ?thesis
    using assms unfolding transcribe_s3_video_with_cache_def Let_def
    by (auto split: sum.splits prod.splits option.splits if_splits intro: that key)
qed

lemma transcribe_parse_error:
  assumes "parse_s3_uri uri = Inl e"
  shows "transcribe_s3_video_with_cache env uri rate lang w = Some (Inl e, w)"
  using assms by (simp add: transcribe_s3_video_with_cache_def)

lemma stage_paths:
  "check_cache env b k w = (rc, w') \<Longrightarrow> paths w' = paths w"
  "download_from_s3 env b k w = (rd, w') \<Longrightarrow> \<exists>p. paths w' = paths w @ [p]"
  "extract_audio_ffmpeg env v rate w = (rd, w') \<Longrightarrow> \<exists>p. paths w' = paths w @ [p]"
  "upload_to_s3 env p b k w = (rd, w') \<Longrightarrow> paths w' = paths w"
  "run_transcription_job env jn uri b lang w = Some (rd, w') \<Longrightarrow> paths w' = paths w"
  "fetch_transcript env b k w = (rf, w') \<Longrightarrow> \<exists>p. paths w' = paths w @ [p]"
  "store_and_return env b k j w = (rs, w') \<Longrightarrow>
     paths w' = paths w \<and> (\<forall>T segs. rs \<noteq> Inr (T, segs, True))"
  using check_cache_effect[of env b k w rc w'] download_from_s3_effect[of env b k w rd w']
    extract_audio_ffmpeg_effect[of env v rate w rd w'] upload_to_s3_effect[of env p b k w rd w']
    run_transcription_job_effect[of env jn uri b lang w rd w']
    fetch_transcript_effect[of env b k w rf w'] store_and_return_effect[of env b k j w rs w']
  by auto

lemma stage_polls:
  "check_cache env b k w = (rc, w') \<Longrightarrow> polls w' = polls w"
  "download_from_s3 env b k w = (rd, w') \<Longrightarrow> polls w' = polls w"
  "extract_audio_ffmpeg env v rate w = (rd, w') \<Longrightarrow> polls w' = polls w"
  "upload_to_s3 env p b k w = (rd, w') \<Longrightarrow> polls w' = polls w"
  "fetch_transcript env b k w = (rf, w') \<Longrightarrow> polls w' = polls w"
  "store_and_return env b k j w = (rs, w') \<Longrightarrow> polls w' = polls w"
  using check_cache_effect[of env b k w rc w'] download_from_s3_effect[of env b k w rd w']
    extract_audio_ffmpeg_effect[of env v rate w rd w'] upload_to_s3_effect[of env p b k w rd w']
    fetch_transcript_effect[of env b k w rf w'] store_and_return_effect[of env b k j w rs w']
  by auto

lemma transcribe_paths:
  assumes "transcribe_s3_video_with_cache env uri rate lang w = Some (r, w')"
  shows "\<exists>new. paths w' = paths w @ new \<and> length new \<le> 3
           \<and> (\<forall>T segs. r = Inr (T, segs, False) \<longrightarrow> length new = 3)
           \<and> (\<forall>T segs. r = Inr (T, segs, True) \<longrightarrow> new = [])"
proof (cases "parse_s3_uri uri")
  case (Inl e)
  with assms show ?thesis by (auto simp: transcribe_parse_error)
next
  case (Inr bk)
  obtain b key where "parse_s3_uri uri = Inr (b, key)" using Inr by (cases bk) simp
  with assms show ?thesis
    by (cases rule: transcribe_cases) (auto dest!: stage_paths)
qed

lemma transcribe_segments:
  assumes "transcribe_s3_video_with_cache env uri rate lang w = Some (Inr (T, segs, c), w')"
  shows "segs = py_split T ''. ''"
proof (cases "parse_s3_uri uri")
  case (Inl e)
  with assms show ?thesis by (simp add: transcribe_parse_error)
next
  case (Inr bk)
  obtain b key where "parse_s3_uri uri = Inr (b, key)" using Inr by (cases bk) simp
  with assms show ?thesis
    by (cases rule: transcribe_cases) (auto dest!: store_and_return_effect)
qed

lemma transcribe_stored:
  assumes "transcribe_s3_video_with_cache env uri rate lang w = Some (Inr (T, segs, False), w')"
    and "parse_s3_uri uri = Inr (b, key)"
  shows "objects w' (b, transcript_key_of (video_name_of key)) = Some T"
  using assms
  by (cases rule: transcribe_cases) (auto dest!: store_and_return_effect)


section \<open>The calls a run issues\<close>

text \<open>
  Each stage extends the trace by calls of a known shape; a property of calls that holds
  of these shapes holds of every call of a run.
\<close>

lemma advances_refl: "advances P w w"
  by (simp add: advances_def)

lemma advances_step:
  assumes "advances P w0 w" and "trace w' = trace w @ evs" and "\<forall>ev\<in>set evs. P ev"
  shows "advances P w0 w'"
  using assms unfolding advances_def by auto

lemma stage_advances:
  "advances P w0 w \<Longrightarrow> check_cache env b k w = (rc, w') \<Longrightarrow>
     P (HeadObject b k) \<Longrightarrow> P (GetObject b k) \<Longrightarrow> advances P w0 w'"
  "advances P w0 w \<Longrightarrow> download_from_s3 env b k w = (rd, w') \<Longrightarrow>
     (\<And>p. P (DownloadFile b k p)) \<Longrightarrow> advances P w0 w'"
  "advances P w0 w \<Longrightarrow> extract_audio_ffmpeg env v rate w = (rd, w') \<Longrightarrow>
     (\<And>cmd. P (SubprocessRun cmd)) \<Longrightarrow> advances P w0 w'"
  "advances P w0 w \<Longrightarrow> upload_to_s3 env p b k w = (ru, w') \<Longrightarrow>
     P (UploadFile p b k) \<Longrightarrow> advances P w0 w'"
  "advances P w0 w \<Longrightarrow> run_transcription_job env jn uri b lang w = Some (rj, w') \<Longrightarrow>
     P (StartTranscriptionJob jn uri ''wav'' lang b (output_key_of jn)) \<Longrightarrow>
     P (GetTranscriptionJob jn) \<Longrightarrow> P (Sleep 10) \<Longrightarrow> advances P w0 w'"
  "advances P w0 w \<Longrightarrow> fetch_transcript env b k w = (rf, w') \<Longrightarrow>
     (\<And>p. P (DownloadFile b k p)) \<Longrightarrow> advances P w0 w'"
  "advances P w0 w \<Longrightarrow> store_and_return env b k j w = (rs, w') \<Longrightarrow>
     (\<And>T. P (PutObject b k T)) \<Longrightarrow> advances P w0 w'"
proof -
  assume a: "advances P w0 w"
  show "check_cache env b k w = (rc, w') \<Longrightarrow>
     P (HeadObject b k) \<Longrightarrow> P (GetObject b k) \<Longrightarrow> advances P w0 w'"
    using check_cache_effect[of env b k w rc w'] advances_step[OF a] by fastforce
  show "download_from_s3 env b k w = (rd, w') \<Longrightarrow>
     (\<And>p. P (DownloadFile b k p)) \<Longrightarrow> advances P w0 w'"
    using download_from_s3_effect[of env b k w rd w'] advances_step[OF a] by fastforce
  show "extract_audio_ffmpeg env v rate w = (rd, w') \<Longrightarrow>
     (\<And>cmd. P (SubprocessRun cmd)) \<Longrightarrow> advances P w0 w'"
    using extract_audio_ffmpeg_effect[of env v rate w rd w'] advances_step[OF a] by fastforce
  show "upload_to_s3 env p b k w = (ru, w') \<Longrightarrow>
     P (UploadFile p b k) \<Longrightarrow> advances P w0 w'"
    using upload_to_s3_effect[of env p b k w ru w'] advances_step[OF a, of w' "[]"]
      advances_step[OF a, of w' "[UploadFile p b k]"] by fastforce
  show "run_transcription_job env jn uri b lang w = Some (rj, w') \<Longrightarrow>
     P (StartTranscriptionJob jn uri ''wav'' lang b (output_key_of jn)) \<Longrightarrow>
     P (GetTranscriptionJob jn) \<Longrightarrow> P (Sleep 10) \<Longrightarrow> advances P w0 w'"
    using run_transcription_job_effect[of env jn uri b lang w rj w'] advances_step[OF a, of w']
    by (fastforce simp: in_poll_events)
  show "fetch_transcript env b k w = (rf, w') \<Longrightarrow>
     (\<And>p. P (DownloadFile b k p)) \<Longrightarrow> advances P w0 w'"
    using fetch_transcript_effect[of env b k w rf w'] advances_step[OF a] by fastforce
  show "store_and_return env b k j w = (rs, w') \<Longrightarrow>
     (\<And>T. P (PutObject b k T)) \<Longrightarrow> advances P w0 w'"
    using store_and_return_effect[of env b k j w rs w'] advances_step[OF a, of w' "[]"]
      advances_step[OF a, of w'] by fastforce
qed


lemma planned_events:
  "planned env b key (HeadObject b (transcript_key_of (video_name_of key)))"
  "planned env b key (GetObject b (transcript_key_of (video_name_of key)))"
  "planned env b key (PutObject b (transcript_key_of (video_name_of key)) T)"
  "planned env b key (DownloadFile b key p)"
  "planned env b key (DownloadFile b (output_key_of (job_name_of (video_name_of key) (now env))) p)"
  "planned env b key (UploadFile p b (audio_key_of (video_name_of key)))"
  "planned env b key (SubprocessRun cmd)"
  "planned env b key (StartTranscriptionJob (job_name_of (video_name_of key) (now env)) u fmt lang b
     (output_key_of (job_name_of (video_name_of key) (now env))))"
  "planned env b key (GetTranscriptionJob (job_name_of (video_name_of key) (now env)))"
  "planned env b key (Sleep n)"
  by (simp_all add: planned_def)

lemma prefix_advances:
  assumes P: "P (HeadObject b (transcript_key_of (video_name_of key)))"
      "P (GetObject b (transcript_key_of (video_name_of key)))"
      "\<And>p. P (DownloadFile b key p)" "\<And>cmd. P (SubprocessRun cmd)"
      "\<And>p. P (UploadFile p b (audio_key_of (video_name_of key)))"
      "\<And>u. P (StartTranscriptionJob (job_name_of (video_name_of key) (now env)) u ''wav'' lang b
             (output_key_of (job_name_of (video_name_of key) (now env))))"
      "P (GetTranscriptionJob (job_name_of (video_name_of key) (now env)))" "P (Sleep 10)"
    and c: "check_cache env b (transcript_key_of (video_name_of key)) w = (rc, w1)"
  shows "advances P w w1"
    and "download_from_s3 env b key w1 = (rd, w2) \<Longrightarrow> advances P w w2"
    and "download_from_s3 env b key w1 = (rd, w2) \<Longrightarrow>
         extract_audio_ffmpeg env v rate w2 = (re, w3) \<Longrightarrow> advances P w w3"
    and "download_from_s3 env b key w1 = (rd, w2) \<Longrightarrow>
         extract_audio_ffmpeg env v rate w2 = (re, w3) \<Longrightarrow>
         upload_to_s3 env a b (audio_key_of (video_name_of key)) w3 = (ru, w4) \<Longrightarrow>
         advances P w w4"
    and "download_from_s3 env b key w1 = (rd, w2) \<Longrightarrow>
         extract_audio_ffmpeg env v rate w2 = (re, w3) \<Longrightarrow>
         upload_to_s3 env a b (audio_key_of (video_name_of key)) w3 = (ru, w4) \<Longrightarrow>
         run_transcription_job env (job_name_of (video_name_of key) (now env)) u b lang w4
           = Some (rj, w5) \<Longrightarrow>
         advances P w w5"
proof -
  show 1: "advances P w w1"
    by (rule stage_advances(1)[OF advances_refl c]) (rule P)+
  show 2: "advances P w w2" if "download_from_s3 env b key w1 = (rd, w2)"
    by (rule stage_advances(2)[OF 1 that]) (rule P)
  show 3: "advances P w w3" if "download_from_s3 env b key w1 = (rd, w2)"
    "extract_audio_ffmpeg env v rate w2 = (re, w3)"
    by (rule stage_advances(3)[OF 2[OF that(1)] that(2)]) (rule P)
  show 4: "advances P w w4" if "download_from_s3 env b key w1 = (rd, w2)"
    "extract_audio_ffmpeg env v rate w2 = (re, w3)"
    "upload_to_s3 env a b (audio_key_of (video_name_of key)) w3 = (ru, w4)"
    by (rule stage_advances(4)[OF 3[OF that(1,2)] that(3)]) (rule P)
  show "advances P w w5" if "download_from_s3 env b key w1 = (rd, w2)"
    "extract_audio_ffmpeg env v rate w2 = (re, w3)"
    "upload_to_s3 env a b (audio_key_of (video_name_of key)) w3 = (ru, w4)"
    "run_transcription_job env (job_name_of (video_name_of key) (now env)) u b lang w4
       = Some (rj, w5)"
    by (rule stage_advances(5)[OF 4[OF that(1,2,3)] that(4)]) (rule P)+
qed

lemma transcribe_events:
  assumes "transcribe_s3_video_with_cache env uri rate lang w = Some (r, w')"
    and "parse_s3_uri uri = Inr (b, key)"
  shows "advances (planned env b key) w w'"
  using assms
proof (cases rule: transcribe_cases)
  case (lookup_error e)
  from prefix_advances(1)[of "planned env b key", OF planned_events(1,2,4,7,6,8,9,10) this(1)]
  show ?thesis .
next
  case (hit T)
  from prefix_advances(1)[of "planned env b key", OF planned_events(1,2,4,7,6,8,9,10) this(1)]
  show ?thesis .
next
  case (download_error x w1 e)
  from prefix_advances(2)[of "planned env b key", OF planned_events(1,2,4,7,6,8,9,10) this(1,2)]
  show ?thesis .
next
  case (extract_error x w1 v w2 e)
  from prefix_advances(3)[of "planned env b key", OF planned_events(1,2,4,7,6,8,9,10) this(1,2,3)]
  show ?thesis .
next
  case (upload_error x w1 v w2 a w3 e)
  from prefix_advances(4)[of "planned env b key", OF planned_events(1,2,4,7,6,8,9,10) this(1,2,3,4)]
  show ?thesis .
next
  case (job_error x w1 v w2 a w3 u w4 e)
  from prefix_advances(5)[of "planned env b key", OF planned_events(1,2,4,7,6,8,9,10) this(1,2,3,4,5)]
  show ?thesis .
next
  case (fetch_error x w1 v w2 a w3 u w4 k w5 e)
  from prefix_advances(5)[of "planned env b key", OF planned_events(1,2,4,7,6,8,9,10) this(1,2,3,4,5)]
  have "advances (planned env b key) w w5" .
  from stage_advances(6)[OF this fetch_error(7)] fetch_error(6) show ?thesis
    by (simp add: planned_events)
next
  case (finish x w1 v w2 a w3 u w4 k w5 j w6)
  from prefix_advances(5)[of "planned env b key", OF planned_events(1,2,4,7,6,8,9,10) this(1,2,3,4,5)]
  have "advances (planned env b key) w w5" .
  from stage_advances(6)[OF this finish(7)] finish(6)
  have "advances (planned env b key) w w6"
    by (simp add: planned_events)
  from stage_advances(7)[OF this finish(8)] show ?thesis
    by (simp add: planned_events)
qed


section \<open>Runs that return, runs whose job fails, runs that finish\<close>

text \<open>
  The stages before the job ask for no status and leave the transcript key alone; the
  run returns when the loop does; and a run that finishes has made every call of the
  pipeline.
\<close>

lemma run_transcription_job_polled:
  assumes "run_transcription_job env jn uri b lang w = Some (r, w')"
    and "polls w' \<noteq> polls w"
  shows "\<exists>n. polls w' = polls w + Suc n
           \<and> (\<forall>i<n. \<not> leaves_loop (job_reply env (polls w + i)))
           \<and> leaves_loop (job_reply env (polls w + n))
           \<and> (case job_reply env (polls w + n) of
                 Inl e \<Rightarrow> r = Inl e
               | Inr resp \<Rightarrow>
                   r = (if job_status resp = ''FAILED''
                        then Inl (RuntimeError (''Transcription job failed: '' @ response_repr resp))
                        else Inr (output_key_of jn)))"
proof -
  note e = run_transcription_job_effect[OF assms(1)]
  from e have "polls w' = polls w \<and> (\<exists>e. r = Inl e)
          \<and> trace w' = trace w @ [StartTranscriptionJob jn uri ''wav'' lang b (output_key_of jn)]
        \<or> (\<exists>n. polls w' = polls w + Suc n
              \<and> trace w' = trace w
                   @ StartTranscriptionJob jn uri ''wav'' lang b (output_key_of jn) # poll_events jn n
              \<and> (\<forall>i<n. \<not> leaves_loop (job_reply env (polls w + i)))
              \<and> leaves_loop (job_reply env (polls w + n))
              \<and> (case job_reply env (polls w + n) of
                    Inl e \<Rightarrow> r = Inl e
                  | Inr resp \<Rightarrow>
                      r = (if job_status resp = ''FAILED''
                           then Inl (RuntimeError (''Transcription job failed: '' @ response_repr resp))
                           else Inr (output_key_of jn))))"
    by (elim conjE)
  with assms(2) show ?thesis
    by (elim disjE conjE exE) (simp, intro exI conjI, assumption+)
qed

lemma transcribe_returns:
  assumes "leaves_loop (job_reply env (polls w + n))"
  shows "\<exists>res. transcribe_s3_video_with_cache env uri rate lang w = Some res"
proof (rule ccontr)
  assume "\<not> (\<exists>res. transcribe_s3_video_with_cache env uri rate lang w = Some res)"
  then have none: "transcribe_s3_video_with_cache env uri rate lang w = None"
    by (cases "transcribe_s3_video_with_cache env uri rate lang w") auto
  then obtain b key x w1 v w2 a w3 u w4 where
    st: "check_cache env b (transcript_key_of (video_name_of key)) w = (Inr (False, x), w1)"
      "download_from_s3 env b key w1 = (Inr v, w2)"
      "extract_audio_ffmpeg env v rate w2 = (Inr a, w3)"
      "upload_to_s3 env a b (audio_key_of (video_name_of key)) w3 = (Inr u, w4)"
      "run_transcription_job env (job_name_of (video_name_of key) (now env)) u b lang w4 = None"
    unfolding transcribe_s3_video_with_cache_def Let_def
    by (auto split: sum.splits prod.splits option.splits if_splits)
  have "polls w4 = polls w"
    using stage_polls(1)[OF st(1)] stage_polls(2)[OF st(2)] stage_polls(3)[OF st(3)]
      stage_polls(4)[OF st(4)] by simp
  with assms have "leaves_loop (job_reply env (polls w4 + n))" by simp
  from run_transcription_job_returns[OF this, of "job_name_of (video_name_of key) (now env)" u b lang]
    st(5)
  show False by simp
qed

lemma prefix_untouched:
  assumes c: "check_cache env b (transcript_key_of (video_name_of key)) w = (rc, w1)"
  shows "polls w1 = polls w
       \<and> objects w1 (b, transcript_key_of (video_name_of key))
         = objects w (b, transcript_key_of (video_name_of key))"
    and "download_from_s3 env b key w1 = (rd, w2) \<Longrightarrow>
         polls w2 = polls w
       \<and> objects w2 (b, transcript_key_of (video_name_of key))
         = objects w (b, transcript_key_of (video_name_of key))"
    and "download_from_s3 env b key w1 = (rd, w2) \<Longrightarrow>
         extract_audio_ffmpeg env v rate w2 = (re, w3) \<Longrightarrow>
         polls w3 = polls w
       \<and> objects w3 (b, transcript_key_of (video_name_of key))
         = objects w (b, transcript_key_of (video_name_of key))"
    and "download_from_s3 env b key w1 = (rd, w2) \<Longrightarrow>
         extract_audio_ffmpeg env v rate w2 = (re, w3) \<Longrightarrow>
         upload_to_s3 env a b (audio_key_of (video_name_of key)) w3 = (ru, w4) \<Longrightarrow>
         polls w4 = polls w
       \<and> objects w4 (b, transcript_key_of (video_name_of key))
         = objects w (b, transcript_key_of (video_name_of key))"
proof -
  have ne: "(b, transcript_key_of (video_name_of key)) \<noteq> (b, audio_key_of (video_name_of key))"
    by (simp add: transcript_key_of_def audio_key_of_def)
  show 1: "polls w1 = polls w
       \<and> objects w1 (b, transcript_key_of (video_name_of key))
         = objects w (b, transcript_key_of (video_name_of key))"
    using check_cache_effect[OF c] by simp
  show 2: "polls w2 = polls w
       \<and> objects w2 (b, transcript_key_of (video_name_of key))
         = objects w (b, transcript_key_of (video_name_of key))"
    if "download_from_s3 env b key w1 = (rd, w2)"
    using download_from_s3_effect[OF that] 1 by simp
  show 3: "polls w3 = polls w
       \<and> objects w3 (b, transcript_key_of (video_name_of key))
         = objects w (b, transcript_key_of (video_name_of key))"
    if "download_from_s3 env b key w1 = (rd, w2)" "extract_audio_ffmpeg env v rate w2 = (re, w3)"
    using extract_audio_ffmpeg_effect[OF that(2)] 2[OF that(1)] by simp
  show "polls w4 = polls w
       \<and> objects w4 (b, transcript_key_of (video_name_of key))
         = objects w (b, transcript_key_of (video_name_of key))"
    if "download_from_s3 env b key w1 = (rd, w2)" "extract_audio_ffmpeg env v rate w2 = (re, w3)"
      "upload_to_s3 env a b (audio_key_of (video_name_of key)) w3 = (ru, w4)"
    using upload_to_s3_effect[OF that(3)] 3[OF that(1,2)] ne by simp
qed

lemma advances_new_events:
  assumes "advances P w w'"
  shows "\<forall>ev\<in>set (new_events w w'). P ev"
  using assms unfolding advances_def new_events_def by auto

lemma failed_job_run:
  assumes run: "transcribe_s3_video_with_cache env uri rate lang w = Some (r, w')"
    and parse: "parse_s3_uri uri = Inr (b, key)"
    and before: "\<forall>i<n. \<not> leaves_loop (job_reply env (polls w + i))"
    and failed: "job_reply env (polls w + n) = Inr resp" "job_status resp = ''FAILED''"
  shows "(polls w < polls w' \<longrightarrow>
            r = Inl (RuntimeError (''Transcription job failed: '' @ response_repr resp)))
       \<and> advances (\<lambda>ev. \<not> is_put ev) w w'
       \<and> objects w' (b, transcript_key_of (video_name_of key))
         = objects w (b, transcript_key_of (video_name_of key))"
proof -
  let ?Q = "\<lambda>ev. \<not> is_put ev"
  note adv = prefix_advances[of ?Q b key env lang, simplified]
  have at: "leaves_loop (job_reply env (polls w + n))"
    using failed by (simp add: terminal_def)
  have job: "ra = Inl (RuntimeError (''Transcription job failed: '' @ response_repr resp))
             \<or> polls w5 = polls w4"
    if j: "run_transcription_job env jn u b lang w4 = Some (ra, w5)" and p: "polls w4 = polls w"
    for jn u w4 ra w5
  proof (cases "polls w5 = polls w4")
    case True
    then show ?thesis by simp
  next
    case False
    from run_transcription_job_polled[OF j False] obtain m where
      m: "\<forall>i<m. \<not> leaves_loop (job_reply env (polls w4 + i))"
        "leaves_loop (job_reply env (polls w4 + m))"
        "case job_reply env (polls w4 + m) of
           Inl e \<Rightarrow> ra = Inl e
         | Inr resp \<Rightarrow>
             ra = (if job_status resp = ''FAILED''
                   then Inl (RuntimeError (''Transcription job failed: '' @ response_repr resp))
                   else Inr (output_key_of jn))"
      by (elim exE conjE)
    have "m = n"
      by (rule first_exit_unique[of n "\<lambda>i. leaves_loop (job_reply env (polls w + i))" m])
         (use before at m(1,2) p in simp_all)
    with m(3) failed p show ?thesis by simp
  qed
  from run parse show ?thesis
  proof (cases rule: transcribe_cases)
    case (lookup_error e)
    with adv(1)[OF this(1)] prefix_untouched(1)[OF this(1)] show ?thesis by simp
  next
    case (hit T)
    with adv(1)[OF this(1)] prefix_untouched(1)[OF this(1)] show ?thesis by simp
  next
    case (download_error x w1 e)
    with adv(2)[OF this(1,2)] prefix_untouched(2)[OF this(1,2)] show ?thesis by simp
  next
    case (extract_error x w1 v w2 e)
    with adv(3)[OF this(1,2,3)] prefix_untouched(3)[OF this(1,2,3)] show ?thesis by simp
  next
    case (upload_error x w1 v w2 a w3 e)
    with adv(4)[OF this(1,2,3,4)] prefix_untouched(4)[OF this(1,2,3,4)] show ?thesis by simp
  next
    case (job_error x w1 v w2 a w3 u w4 e)
    note un = prefix_untouched(4)[OF this(1,2,3,4)]
    from run_transcription_job_effect[OF job_error(5)] have "objects w' = objects w4" by simp
    with adv(5)[OF job_error(1,2,3,4,5)] un job[OF job_error(5)] job_error(6)
    show ?thesis by auto
  next
    case (fetch_error x w1 v w2 a w3 u w4 k w5 e)
    note un = prefix_untouched(4)[OF this(1,2,3,4)]
    from run_transcription_job_effect[OF fetch_error(5)] have "polls w5 \<noteq> polls w4" by auto
    with job[OF fetch_error(5)] un show ?thesis by simp
  next
    case (finish x w1 v w2 a w3 u w4 k w5 j w6)
    note un = prefix_untouched(4)[OF this(1,2,3,4)]
    from run_transcription_job_effect[OF finish(5)] have "polls w5 \<noteq> polls w4" by auto
    with job[OF finish(5)] un show ?thesis by simp
  qed
qed

lemma upload_to_s3_done:
  assumes "upload_to_s3 env p b k w = (Inr u, w')"
  shows "trace w' = trace w @ [UploadFile p b k]"
  using assms
  by (auto simp: upload_to_s3_def s3_upload_file_def issue_def
      split: option.splits sum.splits prod.splits)

lemma run_transcription_job_started:
  assumes "run_transcription_job env jn uri b lang w = Some (r, w')"
  shows "\<exists>evs. trace w' = trace w @ StartTranscriptionJob jn uri ''wav'' lang b (output_key_of jn) # evs"
  using run_transcription_job_effect[OF assms] by (elim conjE disjE exE) simp_all

lemma transcribe_fresh_events:
  assumes "transcribe_s3_video_with_cache env uri rate lang w = Some (Inr (T, segs, False), w')"
    and "parse_s3_uri uri = Inr (b, key)"
  shows "HeadObject b (transcript_key_of (video_name_of key)) \<in> set (new_events w w')
     \<and> (\<exists>p. UploadFile p b (audio_key_of (video_name_of key)) \<in> set (new_events w w'))
     \<and> (\<exists>u. StartTranscriptionJob (job_name_of (video_name_of key) (now env)) u ''wav'' lang b
               (output_key_of (job_name_of (video_name_of key) (now env))) \<in> set (new_events w w'))
     \<and> (\<exists>p. DownloadFile b (output_key_of (job_name_of (video_name_of key) (now env))) p
               \<in> set (new_events w w'))
     \<and> PutObject b (transcript_key_of (video_name_of key)) T \<in> set (new_events w w')"
  using assms
proof (cases rule: transcribe_cases)
  case (finish x w1 v w2 a w3 u w4 k w5 j w6)
  from check_cache_effect[OF finish(1)] obtain e1 where
    t1: "trace w1 = trace w @ HeadObject b (transcript_key_of (video_name_of key)) # e1"
    by auto
  from download_from_s3_effect[OF finish(2)] obtain p2 where
    t2: "trace w2 = trace w1 @ [DownloadFile b key p2]" by auto
  from extract_audio_ffmpeg_effect[OF finish(3)] obtain cmd where
    t3: "trace w3 = trace w2 @ [SubprocessRun cmd]" by auto
  note t4 = upload_to_s3_done[OF finish(4)]
  from run_transcription_job_started[OF finish(5)] obtain e5 where
    t5: "trace w5 = trace w4 @ StartTranscriptionJob (job_name_of (video_name_of key) (now env)) u
           ''wav'' lang b (output_key_of (job_name_of (video_name_of key) (now env))) # e5"
    by auto
  from fetch_transcript_effect[OF finish(7)] finish(6) obtain p6 where
    t6: "trace w6 = trace w5
           @ [DownloadFile b (output_key_of (job_name_of (video_name_of key) (now env))) p6]"
    by auto
  from store_and_return_effect[OF finish(8)]
  have t7: "trace w' = trace w6 @ [PutObject b (transcript_key_of (video_name_of key)) T]"
    by simp
  have "new_events w w' =
      HeadObject b (transcript_key_of (video_name_of key)) # e1
      @ [DownloadFile b key p2, SubprocessRun cmd,
         UploadFile a b (audio_key_of (video_name_of key)),
         StartTranscriptionJob (job_name_of (video_name_of key) (now env)) u
           ''wav'' lang b (output_key_of (job_name_of (video_name_of key) (now env)))]
      @ e5
      @ [DownloadFile b (output_key_of (job_name_of (video_name_of key) (now env))) p6,
         PutObject b (transcript_key_of (video_name_of key)) T]"
    by (simp add: new_events_def t1 t2 t3 t4 t5 t6 t7)
  then show ?thesis
    by (simp (no_asm_simp)) blast
qed simp_all


section \<open>Evaluating the scenarios\<close>

text \<open>The runs of the scenarios, computed by unfolding the definitions.\<close>

lemmas name_defs =
  parse_s3_uri_def py_startswith_def py_split_1_def py_rsplit_1_def basename_def
  video_name_of_def transcript_key_of_def audio_key_of_def job_name_of_def output_key_of_def
  str_int_def str_nat.simps

lemmas run_defs =
  transcribe_s3_video_with_cache_def name_defs check_cache_def s3_head_object_def
  s3_get_object_def s3_put_object_def s3_download_file_def s3_upload_file_def issue_def
  download_from_s3_def NamedTemporaryFile_def write_file_def read_file_def splitext_def
  extract_audio_ffmpeg_def subprocess_run_def upload_to_s3_def run_transcription_job_def
  start_transcription_job_def get_transcription_job_def deliver_output_def time_sleep_def
  fetch_transcript_def top_transcript_def store_and_return_def save_transcript_cache_def
  py_split_def wait_for_job.simps Let_def

lemmas scenario_defs =
  sample_env_def later_env_def stuck_env_def strict_env_def failing_env_def denied_env_def throttled_env_def offline_env_def sample_world_def
  cached_world_def shared_world_def sample_doc_def other_doc_def in_progress_def completed_def failed_def

lemma sample_run:
  "transcribe_s3_video_with_cache sample_env ''s3://meeting-mind-library/video/team-sync.mp4''
     16000 ''en-US'' sample_world
   = Some (Inr (''Hello world. This is a test.'', [''Hello world'', ''This is a test.''], False),
           sample_world_after)"
  by (simp add: run_defs scenario_defs sample_world_after_def)


lemma cached_run:
  "transcribe_s3_video_with_cache later_env ''s3://meeting-mind-library/video/team-sync.mp4''
     8000 ''en-GB'' cached_world
   = Some (Inr (''Hello world. This is a test.'', [''Hello world'', ''This is a test.''], True),
           cached_world\<lparr>trace := [HeadObject ''meeting-mind-library'' ''transcription/team-sync.txt'',
                                    GetObject ''meeting-mind-library'' ''transcription/team-sync.txt'']\<rparr>)"
  by (simp add: run_defs scenario_defs)

lemma failing_run:
  "transcribe_s3_video_with_cache failing_env ''s3://meeting-mind-library/video/team-sync.mp4''
     16000 ''en-US'' sample_world
   = Some (Inl (RuntimeError ''Transcription job failed: {FAILED}''), failing_world_after)"
  by (simp add: run_defs scenario_defs failing_world_after_def)

lemma sample_parse:
  "parse_s3_uri ''s3://meeting-mind-library/video/team-sync.mp4''
     = Inr (''meeting-mind-library'', ''video/team-sync.mp4'')"
  by (simp add: name_defs)

lemma shared_run:
  "transcribe_s3_video_with_cache sample_env ''s3://meeting-mind-library/video/team-sync.mp4''
     16000 ''en-US'' shared_world
   = Some (Inr (''Hello world. This is a test.'', [''Hello world'', ''This is a test.''], False),
           shared_world_after)"
  by (simp add: run_defs scenario_defs shared_world_after_def sample_world_after_def)

lemma other_bucket_run:
  "outcome (transcribe_s3_video_with_cache later_env ''s3://other-library/video/team-sync.mp4''
     16000 ''en-US'' shared_world_after)
   = Some (Inr (''Other meeting.'', [''Other meeting.''], False))"
  by (simp add: run_defs scenario_defs shared_world_after_def sample_world_after_def outcome_def)


section \<open>The claims\<close>

lemma run_the:
  assumes "outcome run = Some x"
  shows "run = Some (x, world_after run)"
  using assms by (cases run) (auto simp: outcome_def world_after_def)

text \<open>
  Claim C1. When the cache lookup for the transcript key of the video returns a hit
  with text \<open>T\<close>, the orchestrator returns \<open>(T, T.split(". "), True)\<close> at once: the
  calls of the run are the \<^verbatim>\<open>head_object\<close> and the \<^verbatim>\<open>get_object\<close> of the lookup
  and nothing else (no download, no encoder, no upload, no job, no put), and the store,
  the local files, the jobs and the number of status requests are as before.
\<close>

theorem cache_hit_skips_pipeline:
  assumes "parse_s3_uri uri = Inr (b, key)"
    and "check_cache env b (transcript_key_of (video_name_of key)) w = (Inr (True, T), w1)"
  shows "transcribe_s3_video_with_cache env uri rate lang w
           = Some (Inr (T, py_split T ''. '', True), w1)
     \<and> new_events w w1 = [HeadObject b (transcript_key_of (video_name_of key)),
                           GetObject b (transcript_key_of (video_name_of key))]
     \<and> objects w1 = objects w \<and> files w1 = files w \<and> jobs w1 = jobs w \<and> polls w1 = polls w"
  using assms check_cache_hit[OF assms(2)]
  by (simp add: transcribe_s3_video_with_cache_def new_events_def Let_def)

theorem cache_hit_skips_pipeline_witness:
  "transcribe_s3_video_with_cache sample_env ''s3://meeting-mind-library/video/team-sync.mp4''
     16000 ''en-US'' cached_world
   = Some (Inr (''Hello world. This is a test.'', [''Hello world'', ''This is a test.''], True),
           cached_world\<lparr>trace := [HeadObject ''meeting-mind-library'' ''transcription/team-sync.txt'',
                                    GetObject ''meeting-mind-library'' ''transcription/team-sync.txt'']\<rparr>)"
proof -
  have p: "parse_s3_uri ''s3://meeting-mind-library/video/team-sync.mp4''
             = Inr (''meeting-mind-library'', ''video/team-sync.mp4'')"
    by (simp add: name_defs)
  have c: "check_cache sample_env ''meeting-mind-library''
             (transcript_key_of (video_name_of ''video/team-sync.mp4'')) cached_world
           = (Inr (True, ''Hello world. This is a test.''),
              cached_world\<lparr>trace := [HeadObject ''meeting-mind-library'' ''transcription/team-sync.txt'',
                                       GetObject ''meeting-mind-library'' ''transcription/team-sync.txt'']\<rparr>)"
    by (simp add: name_defs check_cache_def s3_head_object_def s3_get_object_def issue_def
        scenario_defs)
  from cache_hit_skips_pipeline[OF p c, of 16000 "''en-US''"] show ?thesis
    by (simp add: py_split_def py_startswith_def)
qed


text \<open>
  Claim C2, as amended. \<^verbatim>\<open>check_cache\<close> turns every \<open>ClientError\<close> of the lookup
  into the miss \<open>(False, "")\<close>, whatever its error code: the 404 of a missing object,
  and an access-denied or a throttling response just as well. A failure \<open>e\<close> that is not
  a \<open>ClientError\<close> (a connection error) leaves the function as \<open>e\<close>.
\<close>

theorem check_cache_swallows_every_client_error:
  "(fault env (HeadObject b k) = Some e
      \<or> fault env (HeadObject b k) = None \<and> objects w (b, k) \<noteq> None
          \<and> fault env (GetObject b k) = Some e
    \<longrightarrow> fst (check_cache env b k w) = (if is_client_error e then Inr (False, []) else Inl e))
   \<and> (fault env (HeadObject b k) = None \<and> objects w (b, k) = None
    \<longrightarrow> fst (check_cache env b k w) = Inr (False, []))"
  by (cases e)
     (auto simp: check_cache_def s3_head_object_def s3_get_object_def issue_def
       split: option.splits)

theorem check_cache_swallows_every_client_error_witness:
  "fault offline_env (HeadObject ''meeting-mind-library'' ''transcription/team-sync.txt'')
     = Some (BotoCoreError ''EndpointConnectionError'')
   \<and> fst (check_cache offline_env ''meeting-mind-library'' ''transcription/team-sync.txt'' cached_world)
     = Inl (BotoCoreError ''EndpointConnectionError'')
   \<and> fault throttled_env (HeadObject ''meeting-mind-library'' ''transcription/team-sync.txt'') = None
   \<and> objects cached_world (''meeting-mind-library'', ''transcription/team-sync.txt'')
     = Some ''Hello world. This is a test.''
   \<and> fault throttled_env (GetObject ''meeting-mind-library'' ''transcription/team-sync.txt'')
     = Some (ClientError ''SlowDown'')
   \<and> fst (check_cache throttled_env ''meeting-mind-library'' ''transcription/team-sync.txt'' cached_world)
     = Inr (False, [])
   \<and> fault sample_env (HeadObject ''meeting-mind-library'' ''transcription/team-sync.txt'') = None
   \<and> objects sample_world (''meeting-mind-library'', ''transcription/team-sync.txt'') = None
   \<and> fst (check_cache sample_env ''meeting-mind-library'' ''transcription/team-sync.txt'' sample_world)
     = Inr (False, [])"
  using check_cache_swallows_every_client_error[of offline_env "''meeting-mind-library''"
      "''transcription/team-sync.txt''" "BotoCoreError ''EndpointConnectionError''" cached_world]
    check_cache_swallows_every_client_error[of throttled_env "''meeting-mind-library''"
      "''transcription/team-sync.txt''" "ClientError ''SlowDown''" cached_world]
    check_cache_swallows_every_client_error[of sample_env "''meeting-mind-library''"
      "''transcription/team-sync.txt''" "BotoCoreError ''EndpointConnectionError''" sample_world]
  by (simp add: scenario_defs)

text \<open>
  The claim as stated fails: the store answers 403 to \<^verbatim>\<open>head_object\<close> although the
  transcript is there, and \<^verbatim>\<open>check_cache\<close> returns the normal miss.
\<close>

theorem access_denied_is_reported_as_miss:
  "fault denied_env (HeadObject ''meeting-mind-library'' ''transcription/team-sync.txt'')
     = Some (ClientError ''403'')
   \<and> objects cached_world (''meeting-mind-library'', ''transcription/team-sync.txt'')
     = Some ''Hello world. This is a test.''
   \<and> fst (check_cache denied_env ''meeting-mind-library'' ''transcription/team-sync.txt'' cached_world)
     = Inr (False, [])"
  by (simp add: scenario_defs check_cache_def s3_head_object_def issue_def)


text \<open>
  Claim C3, as amended. Two references in the same bucket whose keys have the same base
  name share the cache entry: the transcript a pipeline run stored for one is returned
  as a hit, with the same text, by the next call for the other (when the lookup itself
  does not fail). The entry is addressed by the bucket of the reference and the
  transcript key.
\<close>

theorem same_bucket_same_name_share_cache_entry:
  assumes "parse_s3_uri uri1 = Inr (b, key1)" and "parse_s3_uri uri2 = Inr (b, key2)"
    and "video_name_of key1 = video_name_of key2"
    and "transcribe_s3_video_with_cache env1 uri1 rate1 lang1 w = Some (Inr (T, segs, False), w1)"
    and "fault env2 (HeadObject b (transcript_key_of (video_name_of key2))) = None"
    and "fault env2 (GetObject b (transcript_key_of (video_name_of key2))) = None"
  shows "transcribe_s3_video_with_cache env2 uri2 rate2 lang2 w1
     = Some (Inr (T, py_split T ''. '', True),
             w1\<lparr>trace := trace w1 @ [HeadObject b (transcript_key_of (video_name_of key2)),
                                      GetObject b (transcript_key_of (video_name_of key2))]\<rparr>)"
proof -
  from transcribe_stored[OF assms(4,1)] assms(3)
  have "objects w1 (b, transcript_key_of (video_name_of key2)) = Some T" by simp
  from check_cache_found[OF this assms(5,6)] assms(2) show ?thesis
    by (simp add: transcribe_s3_video_with_cache_def Let_def)
qed

theorem same_bucket_same_name_share_cache_entry_witness:
  "parse_s3_uri ''s3://meeting-mind-library/video/team-sync.mp4''
     = Inr (''meeting-mind-library'', ''video/team-sync.mp4'')
   \<and> parse_s3_uri ''s3://meeting-mind-library/archive/team-sync.mov''
     = Inr (''meeting-mind-library'', ''archive/team-sync.mov'')
   \<and> video_name_of ''video/team-sync.mp4'' = video_name_of ''archive/team-sync.mov''
   \<and> transcribe_s3_video_with_cache sample_env ''s3://meeting-mind-library/video/team-sync.mp4''
        16000 ''en-US'' shared_world
      = Some (Inr (''Hello world. This is a test.'', [''Hello world'', ''This is a test.''], False),
              shared_world_after)
   \<and> outcome (transcribe_s3_video_with_cache later_env
        ''s3://meeting-mind-library/archive/team-sync.mov'' 16000 ''en-US'' shared_world_after)
      = Some (Inr (''Hello world. This is a test.'', [''Hello world'', ''This is a test.''], True))"
proof -
  have p2: "parse_s3_uri ''s3://meeting-mind-library/archive/team-sync.mov''
     = Inr (''meeting-mind-library'', ''archive/team-sync.mov'')"
    by (simp add: name_defs)
  have n: "video_name_of ''video/team-sync.mp4'' = video_name_of ''archive/team-sync.mov''"
    by (simp add: name_defs)
  have f: "fault later_env (HeadObject ''meeting-mind-library''
             (transcript_key_of (video_name_of ''archive/team-sync.mov''))) = None"
    "fault later_env (GetObject ''meeting-mind-library''
             (transcript_key_of (video_name_of ''archive/team-sync.mov''))) = None"
    by (simp_all add: scenario_defs)
  from same_bucket_same_name_share_cache_entry[OF sample_parse p2 n shared_run f,
      of 16000 "''en-US''"]
  have "outcome (transcribe_s3_video_with_cache later_env
        ''s3://meeting-mind-library/archive/team-sync.mov'' 16000 ''en-US'' shared_world_after)
      = Some (Inr (''Hello world. This is a test.'', [''Hello world'', ''This is a test.''], True))"
    by (simp add: outcome_def py_split_def py_startswith_def)
  with sample_parse p2 n shared_run show ?thesis by simp
qed

text \<open>
  The claim as stated fails: after a run stored the transcript of
  \<^verbatim>\<open>video/team-sync.mp4\<close> in one bucket, the call for the same key in another bucket
  is not answered from the cache; it runs the pipeline and returns another text.
\<close>

theorem other_bucket_misses_stored_transcript:
  "video_name_of ''video/team-sync.mp4'' = ''team-sync''
   \<and> outcome (transcribe_s3_video_with_cache sample_env
        ''s3://meeting-mind-library/video/team-sync.mp4'' 16000 ''en-US'' shared_world)
      = Some (Inr (''Hello world. This is a test.'', [''Hello world'', ''This is a test.''], False))
   \<and> outcome (transcribe_s3_video_with_cache later_env
        ''s3://other-library/video/team-sync.mp4'' 16000 ''en-US''
        (world_after (transcribe_s3_video_with_cache sample_env
           ''s3://meeting-mind-library/video/team-sync.mp4'' 16000 ''en-US'' shared_world)))
      = Some (Inr (''Other meeting.'', [''Other meeting.''], False))"
  by (simp add: shared_run world_after_def other_bucket_run, simp add: outcome_def name_defs)


text \<open>
  Claim C4. Every call of a run names only the video's own address and the three
  derived from its key: the transcript key, the audio key, and the output key of the
  job named from the key and the clock; and it names no other job. A run that returns a
  fresh transcript does use each of them. They depend on the reference alone, the last
  one also on the epoch in the job name. For the key \<^verbatim>\<open>video/team-sync.mp4\<close> they are
  \<^verbatim>\<open>transcription/team-sync.txt\<close>, \<^verbatim>\<open>audio/team-sync.wav\<close>,
  \<^verbatim>\<open>transcribe-team-sync-<epoch>\<close> and
  \<^verbatim>\<open>transcription/transcribe-team-sync-<epoch>.json\<close>.
\<close>

theorem derived_keys_of_a_run:
  assumes "transcribe_s3_video_with_cache env uri rate lang w = Some (r, w')"
    and "parse_s3_uri uri = Inr (b, key)"
  shows "(\<forall>ev\<in>set (new_events w w').
            (\<forall>a. store_address ev = Some a \<longrightarrow>
               a \<in> {(b, key),
                    (b, transcript_key_of (video_name_of key)),
                    (b, audio_key_of (video_name_of key)),
                    (b, output_key_of (job_name_of (video_name_of key) (now env)))})
          \<and> (\<forall>jn. job_of ev = Some jn \<longrightarrow> jn = job_name_of (video_name_of key) (now env)))
     \<and> (\<forall>T segs. r = Inr (T, segs, False) \<longrightarrow>
           HeadObject b (transcript_key_of (video_name_of key)) \<in> set (new_events w w')
         \<and> (\<exists>p. UploadFile p b (audio_key_of (video_name_of key)) \<in> set (new_events w w'))
         \<and> (\<exists>u. StartTranscriptionJob (job_name_of (video_name_of key) (now env)) u ''wav'' lang b
                   (output_key_of (job_name_of (video_name_of key) (now env)))
                 \<in> set (new_events w w'))
         \<and> (\<exists>p. DownloadFile b (output_key_of (job_name_of (video_name_of key) (now env))) p
                 \<in> set (new_events w w'))
         \<and> PutObject b (transcript_key_of (video_name_of key)) T \<in> set (new_events w w'))
     \<and> (key = ''video/team-sync.mp4'' \<longrightarrow>
           transcript_key_of (video_name_of key) = ''transcription/team-sync.txt''
         \<and> audio_key_of (video_name_of key) = ''audio/team-sync.wav''
         \<and> job_name_of (video_name_of key) (now env) = ''transcribe-team-sync-'' @ str_int (now env)
         \<and> output_key_of (job_name_of (video_name_of key) (now env))
             = ''transcription/transcribe-team-sync-'' @ str_int (now env) @ ''.json'')"
proof (intro conjI allI impI)
  from advances_new_events[OF transcribe_events[OF assms]]
  show "\<forall>ev\<in>set (new_events w w').
            (\<forall>a. store_address ev = Some a \<longrightarrow>
               a \<in> {(b, key),
                    (b, transcript_key_of (video_name_of key)),
                    (b, audio_key_of (video_name_of key)),
                    (b, output_key_of (job_name_of (video_name_of key) (now env)))})
          \<and> (\<forall>jn. job_of ev = Some jn \<longrightarrow> jn = job_name_of (video_name_of key) (now env))"
    unfolding planned_def .
next
  fix T segs assume r: "r = Inr (T, segs, False)"
  note fresh = transcribe_fresh_events[OF assms(1)[unfolded r] assms(2)]
  from fresh show "HeadObject b (transcript_key_of (video_name_of key)) \<in> set (new_events w w')"
    by (elim conjE)
  from fresh show "\<exists>p. UploadFile p b (audio_key_of (video_name_of key)) \<in> set (new_events w w')"
    by (elim conjE)
  from fresh show "\<exists>u. StartTranscriptionJob (job_name_of (video_name_of key) (now env)) u ''wav'' lang b
                   (output_key_of (job_name_of (video_name_of key) (now env)))
                 \<in> set (new_events w w')"
    by (elim conjE)
  from fresh show "\<exists>p. DownloadFile b (output_key_of (job_name_of (video_name_of key) (now env))) p
                 \<in> set (new_events w w')"
    by (elim conjE)
  from fresh show "PutObject b (transcript_key_of (video_name_of key)) T \<in> set (new_events w w')"
    by (elim conjE)
next
  assume k: "key = ''video/team-sync.mp4''"
  have v: "video_name_of key = ''team-sync''"
    unfolding k by (simp add: video_name_of_def basename_def py_rsplit_1_def py_startswith_def)
  show "transcript_key_of (video_name_of key) = ''transcription/team-sync.txt''"
    unfolding v by (simp add: transcript_key_of_def)
  show "audio_key_of (video_name_of key) = ''audio/team-sync.wav''"
    unfolding v by (simp add: audio_key_of_def)
  show "job_name_of (video_name_of key) (now env) = ''transcribe-team-sync-'' @ str_int (now env)"
    unfolding v by (simp add: job_name_of_def)
  show "output_key_of (job_name_of (video_name_of key) (now env))
             = ''transcription/transcribe-team-sync-'' @ str_int (now env) @ ''.json''"
    unfolding v by (simp add: job_name_of_def output_key_of_def)
qed

theorem derived_keys_of_a_run_witness:
  "transcribe_s3_video_with_cache sample_env ''s3://meeting-mind-library/video/team-sync.mp4''
     16000 ''en-US'' sample_world
   = Some (Inr (''Hello world. This is a test.'', [''Hello world'', ''This is a test.''], False),
           sample_world_after)
   \<and> parse_s3_uri ''s3://meeting-mind-library/video/team-sync.mp4''
     = Inr (''meeting-mind-library'', ''video/team-sync.mp4'')
   \<and> transcript_key_of (video_name_of ''video/team-sync.mp4'') = ''transcription/team-sync.txt''
   \<and> audio_key_of (video_name_of ''video/team-sync.mp4'') = ''audio/team-sync.wav''
   \<and> job_name_of (video_name_of ''video/team-sync.mp4'') (now sample_env)
     = ''transcribe-team-sync-1700000000''
   \<and> output_key_of (job_name_of (video_name_of ''video/team-sync.mp4'') (now sample_env))
     = ''transcription/transcribe-team-sync-1700000000.json''
   \<and> PutObject ''meeting-mind-library'' ''transcription/team-sync.txt'' ''Hello world. This is a test.''
     \<in> set (new_events sample_world sample_world_after)"
proof -
  have e: "str_int (now sample_env) = ''1700000000''"
    by (simp add: sample_env_def str_int_def str_nat.simps)
  note d = derived_keys_of_a_run[OF sample_run sample_parse]
  from d have k:
    "transcript_key_of (video_name_of ''video/team-sync.mp4'') = ''transcription/team-sync.txt''"
    "audio_key_of (video_name_of ''video/team-sync.mp4'') = ''audio/team-sync.wav''"
    "job_name_of (video_name_of ''video/team-sync.mp4'') (now sample_env)
       = ''transcribe-team-sync-'' @ str_int (now sample_env)"
    "output_key_of (job_name_of (video_name_of ''video/team-sync.mp4'') (now sample_env))
       = ''transcription/transcribe-team-sync-'' @ str_int (now sample_env) @ ''.json''"
    by blast+
  from d have "PutObject ''meeting-mind-library''
      (transcript_key_of (video_name_of ''video/team-sync.mp4'')) ''Hello world. This is a test.''
     \<in> set (new_events sample_world sample_world_after)"
    by blast
  with k e sample_run sample_parse show ?thesis by simp
qed


text \<open>
  Claim C5. Let the service answer the status requests of a run with statuses that are
  neither \<^verbatim>\<open>COMPLETED\<close> nor \<^verbatim>\<open>FAILED\<close> and then with \<^verbatim>\<open>FAILED\<close>. Then the run
  returns; if it asked for the status at all, it raises
  \<^verbatim>\<open>RuntimeError("Transcription job failed: ...")\<close> with the failed response; it issues
  no put; and the object under the transcript key is what it was before the run.
\<close>

theorem failed_job_raises_and_writes_no_transcript:
  assumes "parse_s3_uri uri = Inr (b, key)"
    and "\<forall>i<n. \<exists>earlier. job_reply env (polls w + i) = Inr earlier
            \<and> job_status earlier \<noteq> ''COMPLETED'' \<and> job_status earlier \<noteq> ''FAILED''"
    and "job_reply env (polls w + n) = Inr resp" and "job_status resp = ''FAILED''"
  shows "\<exists>r w'. transcribe_s3_video_with_cache env uri rate lang w = Some (r, w')
     \<and> (polls w < polls w' \<longrightarrow>
          r = Inl (RuntimeError (''Transcription job failed: '' @ response_repr resp)))
     \<and> (\<forall>ev\<in>set (new_events w w'). \<not> is_put ev)
     \<and> objects w' (b, transcript_key_of (video_name_of key))
       = objects w (b, transcript_key_of (video_name_of key))"
proof -
  have before: "\<forall>i<n. \<not> leaves_loop (job_reply env (polls w + i))"
    using assms(2) by (auto simp: terminal_def)
  have "leaves_loop (job_reply env (polls w + n))"
    using assms(3,4) by (simp add: terminal_def)
  from transcribe_returns[OF this] obtain r w' where
    run: "transcribe_s3_video_with_cache env uri rate lang w = Some (r, w')" by fastforce
  from failed_job_run[OF run assms(1) before assms(3,4)] advances_new_events run
  show ?thesis by blast
qed

theorem failed_job_raises_and_writes_no_transcript_witness:
  "parse_s3_uri ''s3://meeting-mind-library/video/team-sync.mp4''
     = Inr (''meeting-mind-library'', ''video/team-sync.mp4'')
   \<and> job_reply failing_env (polls sample_world + 0) = Inr in_progress
   \<and> job_reply failing_env (polls sample_world + 1) = Inr failed
   \<and> job_status failed = ''FAILED''
   \<and> transcribe_s3_video_with_cache failing_env ''s3://meeting-mind-library/video/team-sync.mp4''
        16000 ''en-US'' sample_world
      = Some (Inl (RuntimeError (''Transcription job failed: '' @ response_repr failed)),
              failing_world_after)
   \<and> polls sample_world < polls failing_world_after
   \<and> filter is_put (new_events sample_world failing_world_after) = []
   \<and> objects failing_world_after (''meeting-mind-library'', ''transcription/team-sync.txt'') = None"
proof -
  have h2: "\<forall>i<1. \<exists>earlier. job_reply failing_env (polls sample_world + i) = Inr earlier
            \<and> job_status earlier \<noteq> ''COMPLETED'' \<and> job_status earlier \<noteq> ''FAILED''"
    by (simp add: scenario_defs)
  have h3: "job_reply failing_env (polls sample_world + 1) = Inr failed"
    by (simp add: scenario_defs)
  have h4: "job_status failed = ''FAILED''"
    by (simp add: failed_def)
  from failed_job_raises_and_writes_no_transcript[OF sample_parse h2 h3 h4, of 16000 "''en-US''"]
  have "polls sample_world < polls failing_world_after \<longrightarrow>
          Inl (RuntimeError ''Transcription job failed: {FAILED}'')
          = (Inl (RuntimeError (''Transcription job failed: '' @ response_repr failed))
              :: exn + string \<times> string list \<times> bool)"
    by (simp add: failing_run)
  moreover have "polls sample_world < polls failing_world_after"
    by (simp add: sample_world_def failing_world_after_def)
  ultimately show ?thesis
    using sample_parse h3 h4 failing_run
    by (simp add: scenario_defs failing_world_after_def new_events_def)
qed


text \<open>
  Claim C6. Whenever the orchestrator returns the text
  \<^verbatim>\<open>"Hello world. This is a test."\<close>, the segments it returns with it are
  \<^verbatim>\<open>["Hello world", "This is a test."]\<close>: the text split on the two characters
  full stop, space.
\<close>

theorem segments_of_sample_transcript:
  assumes "transcribe_s3_video_with_cache env uri rate lang w
             = Some (Inr (''Hello world. This is a test.'', segs, cached), w')"
  shows "segs = [''Hello world'', ''This is a test.'']"
  using transcribe_segments[OF assms] by (simp add: py_split_def py_startswith_def)

theorem segments_of_sample_transcript_witness:
  "transcribe_s3_video_with_cache sample_env ''s3://meeting-mind-library/video/team-sync.mp4''
     16000 ''en-US'' sample_world
   = Some (Inr (''Hello world. This is a test.'', [''Hello world'', ''This is a test.''], False),
           sample_world_after)
   \<and> py_split ''Hello world. This is a test.'' ''. '' = [''Hello world'', ''This is a test.'']"
  using segments_of_sample_transcript[OF sample_run] transcribe_segments[OF sample_run] sample_run
  by simp


text \<open>
  Claim C7. For a service that answers every status request with a status, the poll
  loop returns exactly when some answer from the current request on is \<^verbatim>\<open>COMPLETED\<close>
  or \<^verbatim>\<open>FAILED\<close>. When it returns after \<open>n + 1\<close> requests it has slept ten seconds
  after each of the first \<open>n\<close>, and it returns the last answer. There is no bound: for
  every \<open>N\<close> some service makes the loop ask more than \<open>N\<close> times before it returns.
\<close>

theorem poll_loop_terminates_iff_terminal_status:
  assumes "\<forall>i. \<exists>resp. job_reply env i = Inr resp"
  shows "((\<exists>res. wait_for_job env jn w = Some res)
          \<longleftrightarrow> (\<exists>i\<ge>polls w. \<exists>resp. job_reply env i = Inr resp
                 \<and> (job_status resp = ''COMPLETED'' \<or> job_status resp = ''FAILED'')))
     \<and> (\<forall>res. wait_for_job env jn w = Some res \<longrightarrow>
           (\<exists>n. fst res = job_reply env (polls w + n) \<and> polls (snd res) = polls w + Suc n
               \<and> new_events w (snd res)
                  = concat (replicate n [GetTranscriptionJob jn, Sleep 10]) @ [GetTranscriptionJob jn]))
     \<and> (\<forall>N. \<exists>env' res. (\<forall>i. \<exists>resp. job_reply env' i = Inr resp)
           \<and> wait_for_job env' jn w = Some res \<and> polls w + N < polls (snd res))"
proof (intro conjI allI impI iffI)
  assume "\<exists>res. wait_for_job env jn w = Some res"
  then obtain res where res: "wait_for_job env jn w = Some res" ..
  from wait_for_job_exit[OF res] obtain n where
    n: "fst res = job_reply env (polls w + n)" "leaves_loop (fst res)"
    unfolding loop_exit_def by blast
  from assms obtain resp where resp: "job_reply env (polls w + n) = Inr resp" by blast
  with n have "terminal resp" by simp
  with resp show "\<exists>i\<ge>polls w. \<exists>resp. job_reply env i = Inr resp
                 \<and> (job_status resp = ''COMPLETED'' \<or> job_status resp = ''FAILED'')"
    unfolding terminal_def by (intro exI[of _ "polls w + n"]) auto
next
  assume "\<exists>i\<ge>polls w. \<exists>resp. job_reply env i = Inr resp
                 \<and> (job_status resp = ''COMPLETED'' \<or> job_status resp = ''FAILED'')"
  then obtain i resp where i: "polls w \<le> i" "job_reply env i = Inr resp"
    "job_status resp = ''COMPLETED'' \<or> job_status resp = ''FAILED''" by blast
  then have "leaves_loop (job_reply env (polls w + (i - polls w)))"
    by (simp add: terminal_def)
  then show "\<exists>res. wait_for_job env jn w = Some res"
    by (rule wait_for_job_complete)
next
  fix res assume "wait_for_job env jn w = Some res"
  from wait_for_job_exit[OF this]
  show "\<exists>n. fst res = job_reply env (polls w + n) \<and> polls (snd res) = polls w + Suc n
               \<and> new_events w (snd res)
                  = concat (replicate n [GetTranscriptionJob jn, Sleep 10]) @ [GetTranscriptionJob jn]"
    unfolding loop_exit_def new_events_def poll_events_def by auto
next
  fix N
  define env' where "env' = env\<lparr>job_reply := (\<lambda>i. if i < polls w + N then Inr in_progress else Inr completed)\<rparr>"
  have all: "\<forall>i. \<exists>resp. job_reply env' i = Inr resp"
    by (simp add: env'_def)
  have before: "\<forall>i<N. \<not> leaves_loop (job_reply env' (polls w + i))"
    by (simp add: env'_def in_progress_def terminal_def)
  have at: "leaves_loop (job_reply env' (polls w + N))"
    by (simp add: env'_def completed_def terminal_def)
  from wait_for_job_complete[OF at] obtain res where res: "wait_for_job env' jn w = Some res"
    by blast
  from wait_for_job_exit[OF res] obtain n where
    n: "fst res = job_reply env' (polls w + n)" "leaves_loop (fst res)"
       "\<forall>i<n. \<not> leaves_loop (job_reply env' (polls w + i))" "polls (snd res) = polls w + Suc n"
    unfolding loop_exit_def by blast
  have "n = N"
    using first_exit_unique[of N "\<lambda>i. leaves_loop (job_reply env' (polls w + i))" n]
      before at n(1,2,3) by simp
  with n(4) all res
  show "\<exists>env' res. (\<forall>i. \<exists>resp. job_reply env' i = Inr resp)
           \<and> wait_for_job env' jn w = Some res \<and> polls w + N < polls (snd res)"
    by (intro exI[of _ env'] exI[of _ res]) simp
qed

theorem poll_loop_terminates_iff_terminal_status_witness:
  "wait_for_job stuck_env ''transcribe-team-sync-1700000000'' sample_world = None
   \<and> outcome (wait_for_job sample_env ''transcribe-team-sync-1700000000'' sample_world)
       = Some (Inr completed)
   \<and> trace (world_after (wait_for_job sample_env ''transcribe-team-sync-1700000000'' sample_world))
       = [GetTranscriptionJob ''transcribe-team-sync-1700000000'', Sleep 10,
          GetTranscriptionJob ''transcribe-team-sync-1700000000'', Sleep 10,
          GetTranscriptionJob ''transcribe-team-sync-1700000000'']"
proof -
  have stuck: "\<forall>i. \<exists>resp. job_reply stuck_env i = Inr resp"
    by (simp add: stuck_env_def sample_env_def)
  have never: "\<not> (\<exists>i\<ge>polls sample_world. \<exists>resp. job_reply stuck_env i = Inr resp
                 \<and> (job_status resp = ''COMPLETED'' \<or> job_status resp = ''FAILED''))"
    by (simp add: stuck_env_def sample_env_def in_progress_def)
  from poll_loop_terminates_iff_terminal_status[OF stuck,
      of "''transcribe-team-sync-1700000000''" sample_world] never
  have "wait_for_job stuck_env ''transcribe-team-sync-1700000000'' sample_world = None"
    by (cases "wait_for_job stuck_env ''transcribe-team-sync-1700000000'' sample_world") auto
  moreover
  have "wait_for_job sample_env ''transcribe-team-sync-1700000000'' sample_world
    = Some (Inr completed,
        sample_world\<lparr>polls := 3,
          trace := [GetTranscriptionJob ''transcribe-team-sync-1700000000'', Sleep 10,
            GetTranscriptionJob ''transcribe-team-sync-1700000000'', Sleep 10,
            GetTranscriptionJob ''transcribe-team-sync-1700000000'']\<rparr>)"
    by (simp add: wait_for_job.simps get_transcription_job_def deliver_output_def time_sleep_def
        Let_def scenario_defs)
  ultimately show ?thesis
    by (simp add: outcome_def world_after_def)
qed


text \<open>
  Claim C8, as amended. A string that does not begin with \<^verbatim>\<open>s3://\<close> fails the
  assertion with \<^verbatim>\<open>Invalid S3 URI format\<close>, and a string that begins with it but has
  no slash left once every \<^verbatim>\<open>s3://\<close> is removed fails the unpacking with
  \<^verbatim>\<open>ValueError\<close>; in both cases the world is untouched, so no call has been issued.
\<close>

theorem malformed_uri_fails_before_any_call:
  "(\<not> py_startswith uri ''s3://''
      \<longrightarrow> transcribe_s3_video_with_cache env uri rate lang w
            = Some (Inl (AssertionError ''Invalid S3 URI format''), w))
   \<and> (py_startswith uri ''s3://'' \<and> py_find (py_replace uri ''s3://'' []) ''/'' = None
      \<longrightarrow> transcribe_s3_video_with_cache env uri rate lang w
            = Some (Inl (ValueError ''not enough values to unpack (expected 2, got 1)''), w))"
  by (simp add: transcribe_s3_video_with_cache_def parse_s3_uri_def py_split_1_def)

theorem malformed_uri_fails_before_any_call_witness:
  "\<not> py_startswith ''https://example.com/video/team-sync.mp4'' ''s3://''
   \<and> transcribe_s3_video_with_cache sample_env ''https://example.com/video/team-sync.mp4''
        16000 ''en-US'' sample_world
      = Some (Inl (AssertionError ''Invalid S3 URI format''), sample_world)
   \<and> py_startswith ''s3://meeting-mind-library'' ''s3://''
   \<and> py_find (py_replace ''s3://meeting-mind-library'' ''s3://'' []) ''/'' = None
   \<and> transcribe_s3_video_with_cache sample_env ''s3://meeting-mind-library''
        16000 ''en-US'' sample_world
      = Some (Inl (ValueError ''not enough values to unpack (expected 2, got 1)''), sample_world)"
  using malformed_uri_fails_before_any_call[of "''https://example.com/video/team-sync.mp4''"
      sample_env 16000 "''en-US''" sample_world]
    malformed_uri_fails_before_any_call[of "''s3://meeting-mind-library''"
      sample_env 16000 "''en-US''" sample_world]
  by (simp add: py_startswith_def)

text \<open>
  The claim as stated fails: \<^verbatim>\<open>s3://meeting-mind-library/\<close> has an empty key, yet it
  parses, and the run asks the store for \<^verbatim>\<open>transcription/.txt\<close>; it fails only
  afterwards, when the client refuses to download the empty key, and not with the
  error of the parser.
\<close>

theorem empty_key_reaches_the_store:
  "parse_s3_uri ''s3://meeting-mind-library/'' = Inr (''meeting-mind-library'', [])
   \<and> fault strict_env (HeadObject ''meeting-mind-library'' ''transcription/.txt'') = None
   \<and> outcome (transcribe_s3_video_with_cache strict_env ''s3://meeting-mind-library/''
        16000 ''en-US'' sample_world) = Some (Inl (BotoCoreError ''ParamValidationError''))
   \<and> trace (world_after (transcribe_s3_video_with_cache strict_env ''s3://meeting-mind-library/''
        16000 ''en-US'' sample_world))
      = [HeadObject ''meeting-mind-library'' ''transcription/.txt'',
         DownloadFile ''meeting-mind-library'' [] ''/tmp/tmp0'']"
  by (simp add: run_defs scenario_defs outcome_def world_after_def)


text \<open>
  Claim C9, as amended. No run deletes a local file: the files on disk before the run
  are still there after it, followed by the temporary files the run created, at most
  three; a run that returns a fresh transcript leaves exactly three (video, audio, job
  document), a run answered from the cache creates none.
\<close>

theorem scratch_files_are_kept:
  assumes "transcribe_s3_video_with_cache env uri rate lang w = Some (r, w')"
  shows "\<exists>new. paths w' = paths w @ new \<and> length new \<le> 3
           \<and> (\<forall>T segs. r = Inr (T, segs, False) \<longrightarrow> length new = 3)
           \<and> (\<forall>T segs. r = Inr (T, segs, True) \<longrightarrow> new = [])"
  using transcribe_paths[OF assms] .

theorem scratch_files_are_kept_witness:
  "paths sample_world = []
   \<and> paths sample_world_after = [''/tmp/tmp0.mp4'', ''/tmp/tmp1.wav'', ''/tmp/tmp2.json'']"
  using scratch_files_are_kept[OF sample_run]
  by (simp add: paths_def sample_world_def sample_world_after_def)

text \<open>
  The claim as stated fails: the sample run starts with no local file and leaves three.
\<close>

theorem scratch_files_left_behind:
  "outcome (transcribe_s3_video_with_cache sample_env
      ''s3://meeting-mind-library/video/team-sync.mp4'' 16000 ''en-US'' sample_world)
     = Some (Inr (''Hello world. This is a test.'', [''Hello world'', ''This is a test.''], False))
   \<and> files sample_world = []
   \<and> files (world_after (transcribe_s3_video_with_cache sample_env
      ''s3://meeting-mind-library/video/team-sync.mp4'' 16000 ''en-US'' sample_world))
     = [(''/tmp/tmp0.mp4'', ''MP4''), (''/tmp/tmp1.wav'', ''RIFFMP4''), (''/tmp/tmp2.json'', ''{doc}'')]"
  by (simp add: sample_run outcome_def world_after_def,
      simp add: sample_world_def sample_world_after_def)


text \<open>
  Claim C10. On every return, from the cache or from a fresh job, the segments are the
  returned text split on \<^verbatim>\<open>". "\<close>; so two runs that return the same text return the
  same segments, whichever path each took.
\<close>

theorem segments_are_split_of_text:
  assumes "transcribe_s3_video_with_cache env1 uri1 rate1 lang1 w1 = Some (Inr (text, segs1, cached1), w1')"
    and "transcribe_s3_video_with_cache env2 uri2 rate2 lang2 w2 = Some (Inr (text, segs2, cached2), w2')"
  shows "segs1 = py_split text ''. '' \<and> segs2 = segs1"
  using transcribe_segments[OF assms(1)] transcribe_segments[OF assms(2)] by simp

theorem segments_are_split_of_text_witness:
  "outcome (transcribe_s3_video_with_cache sample_env
      ''s3://meeting-mind-library/video/team-sync.mp4'' 16000 ''en-US'' sample_world)
     = Some (Inr (''Hello world. This is a test.'', [''Hello world'', ''This is a test.''], False))
   \<and> outcome (transcribe_s3_video_with_cache later_env
      ''s3://meeting-mind-library/video/team-sync.mp4'' 8000 ''en-GB'' cached_world)
     = Some (Inr (''Hello world. This is a test.'', [''Hello world'', ''This is a test.''], True))
   \<and> [''Hello world'', ''This is a test.''] = py_split ''Hello world. This is a test.'' ''. ''"
  using segments_are_split_of_text[OF sample_run cached_run]
  by (simp add: sample_run cached_run outcome_def)

end
